theory Spec2Isabelle
  imports Main "HOL-Library.Word" "HOL-Library.Multiset"
begin

section \<open>JavaScript strings\<close>

text \<open>
  A JavaScript string is a sequence of UTF-16 code units; \<open>length\<close>, \<open>slice\<close> and
  \<open>trim\<close> all count code units.  String literals of the source are written through
  \<open>js\<close>; literals with code units beyond ASCII are written out as numbers.
\<close>

type_synonym jsstring = "16 word list"

definition js :: "string \<Rightarrow> jsstring" where
  "js s = map (\<lambda>c. of_nat (of_char c)) s"

text \<open>\<open>String.prototype.trim\<close>: strips WhiteSpace and LineTerminator code units
  (ECMAScript 22.1.3.32) from both ends.\<close>

definition isWhiteSpace :: "16 word \<Rightarrow> bool" where
  "isWhiteSpace c \<longleftrightarrow>
     c = 0x9 \<or> c = 0xA \<or> c = 0xB \<or> c = 0xC \<or> c = 0xD \<or> c = 0x20 \<or> c = 0xA0 \<or>
     c = 0x1680 \<or> (0x2000 \<le> c \<and> c \<le> 0x200A) \<or> c = 0x2028 \<or> c = 0x2029 \<or>
     c = 0x202F \<or> c = 0x205F \<or> c = 0x3000 \<or> c = 0xFEFF"

definition trim :: "jsstring \<Rightarrow> jsstring" where
  "trim s = rev (dropWhile isWhiteSpace (rev (dropWhile isWhiteSpace s)))"

text \<open>\<open>str.slice(a, b)\<close> for \<open>0 \<le> a \<le> b\<close>; both ends are clamped to the length.\<close>

definition js_slice :: "'a list \<Rightarrow> nat \<Rightarrow> nat \<Rightarrow> 'a list" where
  "js_slice str a b = take (b - a) (drop a str)"

text \<open>\<open>arr.slice(-n)\<close>: the last \<open>n\<close> elements; \<open>slice(-0)\<close> is \<open>slice(0)\<close>, the whole array.\<close>

definition slice_last :: "nat \<Rightarrow> 'a list \<Rightarrow> 'a list" where
  "slice_last n xs = (if n = 0 then xs else drop (length xs - n) xs)"

section \<open>Splitting a reply (index.js, splitStringByLength)\<close>

text \<open>
  The \<open>while (index < str.length)\<close> loop.  With \<open>len = 0\<close> the index never advances and
  the loop does not return, so the loop is a partial function: \<open>None\<close> is not returning.
\<close>

partial_function (option) splitLoop ::
  "jsstring \<Rightarrow> nat \<Rightarrow> nat \<Rightarrow> jsstring list \<Rightarrow> jsstring list option" where
  "splitLoop str len index result =
     (if index < length str
      then splitLoop str len (index + len) (result @ [js_slice str index (index + len)])
      else Some result)"

definition splitStringByLength :: "jsstring \<Rightarrow> nat \<Rightarrow> jsstring list option" where
  "splitStringByLength str len = splitLoop str len 0 []"

section \<open>Data model\<close>

text \<open>A thrown JavaScript \<open>Error\<close>, with its message.\<close>

datatype error = Error jsstring

text \<open>A conversation entry \<open>{role, content, timestamp}\<close>; the system entry carries no
  timestamp.\<close>

datatype role = System | User | Assistant

record entry =
  e_role :: role
  e_content :: jsstring
  e_timestamp :: "nat option"

text \<open>
  The value stored under a conversation key is a JSON text.  \<open>History h\<close> is the text
  that \<open>JSON.parse\<close> reads as the array \<open>h\<close> (what \<open>saveConversationHistory\<close> writes);
  \<open>Malformed\<close> is any other non-empty text: parsing it, or using the parsed value as an
  array, throws inside \<open>getConversationHistory\<close>.
\<close>

datatype history_json = History "entry list" | Malformed

text \<open>The metadata object passed to \<open>markMessageAsProcessed\<close>, and the record it stores:
  \<open>{msgId, processedAt, timestamp, ...metadata}\<close>, where \<open>processedAt\<close> and \<open>timestamp\<close> are
  one reading of the clock.\<close>

record metadata =
  md_timestamp :: "jsstring option"
  md_nonce :: "jsstring option"
  md_externalUserid :: "jsstring option"
  md_content :: "jsstring option"
  md_assistantMessage :: "jsstring option"
  md_error :: "jsstring option"
  md_success :: bool

record processing_record =
  pr_msgId :: jsstring
  pr_processedAt :: nat
  pr_metadata :: metadata

text \<open>A message of the remote mailbox as \<open>kf/sync_msg\<close> returns it, a page of them, and
  the object \<open>getLatestTextMessages\<close> builds from a message (its \<open>sendTime\<close>, a display string
  computed from \<open>send_time\<close>, is kept as the send time itself).\<close>

record wire_message =
  m_msgtype :: jsstring
  m_send_time :: "nat option"
  m_text_content :: "jsstring option"
  m_msgid :: "jsstring option"
  m_external_userid :: "jsstring option"

record sync_page =
  msg_list :: "wire_message list option"
  next_cursor :: "jsstring option"

record text_message =
  t_content :: jsstring
  t_msgid :: jsstring
  t_externalUserid :: jsstring
  t_sendTime :: "nat option"
  t_originalMessage :: wire_message

text \<open>What reaches the user through the messaging gateway: a call of \<open>kf/send_msg\<close>
  with a text, of \<open>media/upload\<close> (type, file content, file name), or of \<open>kf/send_msg\<close>
  with a file.  Only calls that succeed are recorded.\<close>

datatype outbound =
  TextMessage jsstring jsstring jsstring
| MediaUpload jsstring jsstring jsstring
| FileMessage jsstring jsstring jsstring

text \<open>
  The state the worker acts on: the two KV namespaces (each value with the
  \<open>expirationTtl\<close> it was put with) and the calls made on the gateway, in order.
  Expiry itself is an event of the store, outside the worker.  Console output is not
  part of the state.
\<close>

record world =
  MESSAGE_TRACKER :: "jsstring \<rightharpoonup> processing_record \<times> nat"
  CONVERSATIONS :: "jsstring \<rightharpoonup> history_json \<times> nat"
  outbox :: "outbound list"

text \<open>
  The collaborators of one run, as the worker sees them: which bindings are configured,
  the clock, and for every remote call its answer.  A storage or gateway call that fails
  is given by the error it throws.  Within one run an answer depends on the arguments of
  the call only; two runs have two environments.  The access token that the gateway
  calls fetch first is part of the call: a failing fetch is a failing call.
\<close>

record env =
  now :: nat
  WECHAT_configured :: bool
  CONVERSATIONS_bound :: bool
  MESSAGE_TRACKER_bound :: bool
  SYSTEM_PROMPT :: jsstring
  tracker_get_error :: "jsstring \<Rightarrow> error option"
  tracker_put_error :: "jsstring \<Rightarrow> error option"
  conversations_get_error :: "jsstring \<Rightarrow> error option"
  conversations_put_error :: "jsstring \<Rightarrow> error option"
  xml_extract :: "jsstring \<Rightarrow> jsstring option"
  crypto_getSignature :: "jsstring \<Rightarrow> jsstring \<Rightarrow> jsstring \<Rightarrow> error + jsstring"
  crypto_decrypt :: "jsstring \<Rightarrow> error + jsstring"
  parseXML :: "jsstring \<Rightarrow> error + (jsstring \<times> jsstring)"
  syncMessages :: "jsstring \<Rightarrow> jsstring \<Rightarrow> jsstring option \<Rightarrow> error + sync_page"
  chatCompletion :: "(role \<times> jsstring) list \<Rightarrow> error + jsstring option"
  send_text_error :: "jsstring \<Rightarrow> jsstring \<Rightarrow> jsstring \<Rightarrow> error option"
  uploadMedia :: "jsstring \<Rightarrow> jsstring \<Rightarrow> jsstring \<Rightarrow> error + jsstring"
  send_file_error :: "jsstring \<Rightarrow> jsstring \<Rightarrow> jsstring \<Rightarrow> error option"

text \<open>The result of an asynchronous function that may throw, with the state it leaves.\<close>

type_synonym 'a outcome = "(error + 'a) \<times> world"

section \<open>The KV namespaces\<close>

text \<open>
  \<open>kv.get\<close> and \<open>kv.put\<close> on a namespace.  On a binding that is not configured the
  namespace object is \<open>undefined\<close> and every call on it throws a \<open>TypeError\<close>.
\<close>

definition TypeError :: error where
  "TypeError = Error (js ''TypeError'')"

definition kv_get ::
  "bool \<Rightarrow> (jsstring \<Rightarrow> error option) \<Rightarrow> (jsstring \<rightharpoonup> 'v \<times> nat) \<Rightarrow> jsstring \<Rightarrow> error + 'v option" where
  "kv_get bound fails store key =
     (if \<not> bound then Inl TypeError
      else case fails key of
        Some e \<Rightarrow> Inl e
      | None \<Rightarrow> Inr (map_option fst (store key)))"

definition kv_put ::
  "bool \<Rightarrow> (jsstring \<Rightarrow> error option) \<Rightarrow> (jsstring \<rightharpoonup> 'v \<times> nat) \<Rightarrow> jsstring \<Rightarrow> 'v \<Rightarrow> nat
     \<Rightarrow> error + (jsstring \<rightharpoonup> 'v \<times> nat)" where
  "kv_put bound fails store key v ttl =
     (if \<not> bound then Inl TypeError
      else case fails key of
        Some e \<Rightarrow> Inl e
      | None \<Rightarrow> Inr (store(key \<mapsto> (v, ttl))))"

text \<open>The two namespaces of the worker, \<open>env.MESSAGE_TRACKER\<close> and \<open>env.CONVERSATIONS\<close>.\<close>

definition tracker_kv_get :: "env \<Rightarrow> world \<Rightarrow> jsstring \<Rightarrow> error + processing_record option" where
  "tracker_kv_get ev w key =
     kv_get (MESSAGE_TRACKER_bound ev) (tracker_get_error ev) (MESSAGE_TRACKER w) key"

definition tracker_kv_put ::
  "env \<Rightarrow> jsstring \<Rightarrow> processing_record \<Rightarrow> nat \<Rightarrow> world \<Rightarrow> error + world" where
  "tracker_kv_put ev key v ttl w =
     (case kv_put (MESSAGE_TRACKER_bound ev) (tracker_put_error ev) (MESSAGE_TRACKER w) key v ttl of
        Inl e \<Rightarrow> Inl e
      | Inr store' \<Rightarrow> Inr (w\<lparr>MESSAGE_TRACKER := store'\<rparr>))"

definition conversations_kv_get :: "env \<Rightarrow> world \<Rightarrow> jsstring \<Rightarrow> error + history_json option" where
  "conversations_kv_get ev w key =
     kv_get (CONVERSATIONS_bound ev) (conversations_get_error ev) (CONVERSATIONS w) key"

definition conversations_kv_put ::
  "env \<Rightarrow> jsstring \<Rightarrow> history_json \<Rightarrow> nat \<Rightarrow> world \<Rightarrow> error + world" where
  "conversations_kv_put ev key v ttl w =
     (case kv_put (CONVERSATIONS_bound ev) (conversations_put_error ev) (CONVERSATIONS w) key v ttl of
        Inl e \<Rightarrow> Inl e
      | Inr store' \<Rightarrow> Inr (w\<lparr>CONVERSATIONS := store'\<rparr>))"

section \<open>The Ledger (message-tracker.js, class MessageTracker)\<close>

record messageTracker =
  mt_expirationTtl :: nat
  mt_keyPrefix :: jsstring

text \<open>The constructor: \<open>options.expirationTtl || 86400\<close>, \<open>options.keyPrefix || 'processed_msg'\<close>;
  an option left out is \<open>0\<close> or the empty string here, which \<open>||\<close> replaces as well.\<close>

definition new_MessageTracker :: "nat \<Rightarrow> jsstring \<Rightarrow> messageTracker" where
  "new_MessageTracker ttl prefix =
     \<lparr>mt_expirationTtl = (if ttl = 0 then 86400 else ttl),
      mt_keyPrefix = (if prefix = [] then js ''processed_msg'' else prefix)\<rparr>"

definition getMessageKey :: "messageTracker \<Rightarrow> jsstring \<Rightarrow> jsstring" where
  "getMessageKey mt msgId = mt_keyPrefix mt @ js '':'' @ msgId"

text \<open>\<open>isMessageProcessed\<close>: \<open>result !== null\<close>, and \<open>false\<close> from the \<open>catch\<close>.\<close>

definition isMessageProcessed :: "messageTracker \<Rightarrow> env \<Rightarrow> world \<Rightarrow> jsstring \<Rightarrow> bool" where
  "isMessageProcessed mt ev w msgId =
     (case tracker_kv_get ev w (getMessageKey mt msgId) of
        Inl e \<Rightarrow> False
      | Inr result \<Rightarrow> result \<noteq> None)"

text \<open>\<open>markMessageAsProcessed\<close>: the \<open>catch\<close> logs and throws the error again.\<close>

definition markMessageAsProcessed ::
  "messageTracker \<Rightarrow> env \<Rightarrow> jsstring \<Rightarrow> metadata \<Rightarrow> world \<Rightarrow> bool outcome" where
  "markMessageAsProcessed mt ev msgId meta w =
     (let key = getMessageKey mt msgId;
          data = \<lparr>pr_msgId = msgId, pr_processedAt = now ev, pr_metadata = meta\<rparr>
      in case tracker_kv_put ev key data (mt_expirationTtl mt) w of
           Inl e \<Rightarrow> (Inl e, w)
         | Inr w' \<Rightarrow> (Inr True, w'))"

text \<open>
  \<open>checkMultipleMessages\<close>: one \<open>isMessageProcessed\<close> per id, the answers written into
  the \<open>results\<close> object in the order of \<open>msgIds\<close> (a repeated id keeps its last answer).
  No promise of the batch can reject, since \<open>isMessageProcessed\<close> catches every error;
  the \<open>catch\<close> of the batch is never entered.
\<close>

definition checkMultipleMessages ::
  "messageTracker \<Rightarrow> env \<Rightarrow> world \<Rightarrow> jsstring list \<Rightarrow> (jsstring \<rightharpoonup> bool)" where
  "checkMultipleMessages mt ev w msgIds =
     (let checkResults = map (\<lambda>msgId. (msgId, isMessageProcessed mt ev w msgId)) msgIds
      in fold (\<lambda>(msgId, processed) results. results(msgId \<mapsto> processed)) checkResults Map.empty)"

section \<open>The Context Store (conversation.js, class ConversationManager)\<close>

record conversationManager =
  maxHistoryLength :: nat
  expirationTtl :: nat
  systemPrompt :: jsstring

definition new_ConversationManager :: "nat \<Rightarrow> nat \<Rightarrow> jsstring \<Rightarrow> conversationManager" where
  "new_ConversationManager maxLen ttl prompt =
     \<lparr>maxHistoryLength = (if maxLen = 0 then 10 else maxLen),
      expirationTtl = (if ttl = 0 then 86400 else ttl),
      systemPrompt = (if prompt = [] then js ''you are helpful assistant'' else prompt)\<rparr>"

definition getConversationKey :: "jsstring \<Rightarrow> jsstring" where
  "getConversationKey userId = js ''conversation:'' @ userId"

definition systemEntry :: "conversationManager \<Rightarrow> entry" where
  "systemEntry cm = \<lparr>e_role = System, e_content = systemPrompt cm, e_timestamp = None\<rparr>"

text \<open>
  \<open>getConversationHistory\<close>, first the body of its \<open>try\<close>: the read may throw, and so
  does \<open>JSON.parse\<close> (or the use of its result as an array) on a malformed text; an
  absent key (\<open>null\<close>) leaves \<open>history = []\<close>.  The \<open>catch\<close> returns the default history.
\<close>

definition SyntaxError :: error where
  "SyntaxError = Error (js ''SyntaxError'')"

definition getConversationHistory_try ::
  "conversationManager \<Rightarrow> env \<Rightarrow> world \<Rightarrow> jsstring \<Rightarrow> error + entry list" where
  "getConversationHistory_try cm ev w userId =
     (case conversations_kv_get ev w (getConversationKey userId) of
        Inl e \<Rightarrow> Inl e
      | Inr None \<Rightarrow> Inr [systemEntry cm]
      | Inr (Some Malformed) \<Rightarrow> Inl SyntaxError
      | Inr (Some (History history)) \<Rightarrow>
          Inr (systemEntry cm #
                (if length history > 0 \<and> e_role (hd history) = System
                 then tl history else history)))"

definition getConversationHistory :: "conversationManager \<Rightarrow> env \<Rightarrow> world \<Rightarrow> jsstring \<Rightarrow> entry list" where
  "getConversationHistory cm ev w userId =
     (case getConversationHistory_try cm ev w userId of
        Inl e \<Rightarrow> [systemEntry cm]
      | Inr history \<Rightarrow> history)"

text \<open>\<open>saveConversationHistory\<close>: trims, puts, returns the trimmed history; a failing put
  is logged and thrown again.\<close>

definition saveConversationHistory ::
  "conversationManager \<Rightarrow> env \<Rightarrow> jsstring \<Rightarrow> entry list \<Rightarrow> world \<Rightarrow> (entry list) outcome" where
  "saveConversationHistory cm ev userId history w =
     (let key = getConversationKey userId;
          trimmedHistory =
            (if length history > maxHistoryLength cm + 1
             then hd history # slice_last (maxHistoryLength cm) history
             else history)
      in case conversations_kv_put ev key (History trimmedHistory) (expirationTtl cm) w of
           Inl e \<Rightarrow> (Inl e, w)
         | Inr w' \<Rightarrow> (Inr trimmedHistory, w'))"

definition addUserMessage ::
  "conversationManager \<Rightarrow> env \<Rightarrow> jsstring \<Rightarrow> jsstring \<Rightarrow> world \<Rightarrow> (entry list) outcome" where
  "addUserMessage cm ev userId content w =
     (let history = getConversationHistory cm ev w userId @
                      [\<lparr>e_role = User, e_content = content, e_timestamp = Some (now ev)\<rparr>]
      in saveConversationHistory cm ev userId history w)"

definition addAssistantMessage ::
  "conversationManager \<Rightarrow> env \<Rightarrow> jsstring \<Rightarrow> jsstring \<Rightarrow> world \<Rightarrow> (entry list) outcome" where
  "addAssistantMessage cm ev userId content w =
     (let history = getConversationHistory cm ev w userId @
                      [\<lparr>e_role = Assistant, e_content = content, e_timestamp = Some (now ev)\<rparr>]
      in saveConversationHistory cm ev userId history w)"

text \<open>\<open>ConversationManager.processUserMessage\<close> and \<open>completeAssistantReply\<close>.\<close>

definition cm_processUserMessage ::
  "conversationManager \<Rightarrow> env \<Rightarrow> jsstring \<Rightarrow> jsstring \<Rightarrow> world \<Rightarrow> ((role \<times> jsstring) list) outcome" where
  "cm_processUserMessage cm ev userId userMessage w =
     (case addUserMessage cm ev userId userMessage w of
        (Inl e, w') \<Rightarrow> (Inl e, w')
      | (Inr updatedHistory, w') \<Rightarrow>
          (Inr (map (\<lambda>msg. (e_role msg, e_content msg)) updatedHistory), w'))"

definition completeAssistantReply ::
  "conversationManager \<Rightarrow> env \<Rightarrow> jsstring \<Rightarrow> jsstring \<Rightarrow> world \<Rightarrow> (entry list) outcome" where
  "completeAssistantReply cm ev userId assistantMessage w =
     addAssistantMessage cm ev userId assistantMessage w"

section \<open>The messaging gateway (clients.js, class WeChatClient)\<close>

definition sendTextMessage :: "env \<Rightarrow> jsstring \<Rightarrow> jsstring \<Rightarrow> jsstring \<Rightarrow> world \<Rightarrow> unit outcome" where
  "sendTextMessage ev touser openKfid content w =
     (case send_text_error ev touser openKfid content of
        Some e \<Rightarrow> (Inl e, w)
      | None \<Rightarrow> (Inr (), w\<lparr>outbox := outbox w @ [TextMessage touser openKfid content]\<rparr>))"

definition sendFileMessage :: "env \<Rightarrow> jsstring \<Rightarrow> jsstring \<Rightarrow> jsstring \<Rightarrow> world \<Rightarrow> unit outcome" where
  "sendFileMessage ev touser openKfid mediaId w =
     (case send_file_error ev touser openKfid mediaId of
        Some e \<Rightarrow> (Inl e, w)
      | None \<Rightarrow> (Inr (), w\<lparr>outbox := outbox w @ [FileMessage touser openKfid mediaId]\<rparr>))"

text \<open>\<open>wireNote\<close> (index.js): the file \<open>`${question}-...-${msgid}.txt`\<close> holding \<open>value\<close> is
  uploaded, then sent as a file message.\<close>

definition noteInfix :: jsstring where
  "noteInfix = [0x2D, 0x5B8C, 0x6574, 0x56DE, 0x7B54, 0x2D]"

definition wireNote ::
  "env \<Rightarrow> jsstring \<Rightarrow> jsstring \<Rightarrow> jsstring \<Rightarrow> jsstring \<Rightarrow> jsstring \<Rightarrow> world \<Rightarrow> unit outcome" where
  "wireNote ev externalUserid msgKfId msgid question val w =
     (let filename = question @ noteInfix @ msgid @ js ''.txt''
      in case uploadMedia ev (js ''file'') val filename of
           Inl e \<Rightarrow> (Inl e, w)
         | Inr media_id \<Rightarrow>
             sendFileMessage ev externalUserid msgKfId media_id
               (w\<lparr>outbox := outbox w @ [MediaUpload (js ''file'') val filename]\<rparr>))"

section \<open>The Reply Dispatcher (index.js, processUserMessage, lines 562 to 576)\<close>

definition messageChunkSize :: nat where
  "messageChunkSize = 1024"

definition messageChunkCount :: nat where
  "messageChunkCount = 5"

text \<open>
  The \<open>for (let i = 0; i < messageChunks.length; i++)\<close> loop, from index \<open>i\<close> on.  The
  body has no \<open>break\<close>: after a file the loop goes on to the next index.  A send that
  throws leaves the loop.
\<close>

function sendChunks ::
  "env \<Rightarrow> jsstring \<Rightarrow> jsstring \<Rightarrow> jsstring \<Rightarrow> jsstring \<Rightarrow> jsstring \<Rightarrow> jsstring list \<Rightarrow> nat
     \<Rightarrow> world \<Rightarrow> unit outcome" where
  "sendChunks ev externalUserid msgKfId msgid content assistantMessage messageChunks i w =
     (if i < length messageChunks
      then
        (let chunk = messageChunks ! i
         in case (if i + 1 = messageChunkCount \<or> i = length messageChunks - 1
                  then wireNote ev externalUserid msgKfId msgid content assistantMessage w
                  else sendTextMessage ev externalUserid msgKfId chunk w) of
              (Inl e, w') \<Rightarrow> (Inl e, w')
            | (Inr u, w') \<Rightarrow>
                sendChunks ev externalUserid msgKfId msgid content assistantMessage
                  messageChunks (i + 1) w')
      else (Inr (), w))"
  by pat_completeness auto
termination
  by (relation "measure (\<lambda>(ev, u, k, m, c, a, chunks, i, w). length chunks - i)") auto

declare sendChunks.simps [simp del]

text \<open>The whole dispatch of a reply; \<open>None\<close> if the splitting does not return.\<close>

definition dispatchReply ::
  "env \<Rightarrow> jsstring \<Rightarrow> jsstring \<Rightarrow> jsstring \<Rightarrow> jsstring \<Rightarrow> jsstring \<Rightarrow> world \<Rightarrow> unit outcome option" where
  "dispatchReply ev externalUserid msgKfId msgid content assistantMessage w =
     (if length assistantMessage > messageChunkSize
      then
        (case splitStringByLength (trim assistantMessage) messageChunkSize of
           None \<Rightarrow> None
         | Some messageChunks \<Rightarrow>
             Some (sendChunks ev externalUserid msgKfId msgid content assistantMessage
                     messageChunks 0 w))
      else Some (sendTextMessage ev externalUserid msgKfId assistantMessage w))"

section \<open>The Inbox Synchronizer (clients.js, syncAllMessages and getLatestTextMessages)\<close>

text \<open>
  \<open>syncAllMessages\<close>: the \<open>while (true)\<close> loop, with the cursor and the messages
  gathered so far.  It leaves through \<open>break\<close> when the page has no cursor (\<open>undefined\<close>,
  \<open>null\<close> or the empty string) or no message, or through the error \<open>syncMessages\<close>
  throws; \<open>None\<close> is not returning.
\<close>

partial_function (option) syncAllLoop ::
  "env \<Rightarrow> jsstring \<Rightarrow> jsstring \<Rightarrow> jsstring option \<Rightarrow> wire_message list
     \<Rightarrow> (error + wire_message list) option" where
  "syncAllLoop ev msgToken kfId cursor allMessages =
     (case syncMessages ev msgToken kfId cursor of
        Inl e \<Rightarrow> Some (Inl e)
      | Inr messages \<Rightarrow>
          (let msgList = (case msg_list messages of None \<Rightarrow> [] | Some l \<Rightarrow> l);
               allMessages' = allMessages @ msgList;
               cursor' = next_cursor messages
           in if cursor' = None \<or> cursor' = Some [] \<or> length msgList = 0
              then Some (Inr allMessages')
              else syncAllLoop ev msgToken kfId cursor' allMessages'))"

definition syncAllMessages ::
  "env \<Rightarrow> jsstring \<Rightarrow> jsstring \<Rightarrow> (error + wire_message list) option" where
  "syncAllMessages ev msgToken kfId = syncAllLoop ev msgToken kfId None []"

text \<open>\<open>allMessages.sort((a, b) => (b.send_time || 0) - (a.send_time || 0))\<close>: a stable sort,
  descending by send time, a missing send time counting as 0.\<close>

definition send_time_or_0 :: "wire_message \<Rightarrow> nat" where
  "send_time_or_0 m = (case m_send_time m of None \<Rightarrow> 0 | Some t \<Rightarrow> t)"

definition sortBySendTimeDesc :: "wire_message list \<Rightarrow> wire_message list" where
  "sortBySendTimeDesc ms = sort_key (\<lambda>m. - int (send_time_or_0 m)) ms"

text \<open>
  The body of \<open>for (const message of allMessages)\<close> for one message.  The body ends in an
  unconditional \<open>break\<close>, so only the first message of the sorted array is ever looked at.
\<close>

definition examineMessage ::
  "messageTracker option \<Rightarrow> env \<Rightarrow> world \<Rightarrow> wire_message \<Rightarrow> text_message list" where
  "examineMessage messageTracker ev w message =
     (if m_msgtype message = js ''text''
      then
        (let content = (case m_text_content message of None \<Rightarrow> [] | Some c \<Rightarrow> c);
             msgid = (case m_msgid message of None \<Rightarrow> [] | Some i \<Rightarrow> i);
             externalUserid = (case m_external_userid message of None \<Rightarrow> [] | Some u \<Rightarrow> u)
         in if content \<noteq> [] \<and> msgid \<noteq> []
            then
              (let isProcessed =
                     (case messageTracker of
                        None \<Rightarrow> False
                      | Some mt \<Rightarrow> isMessageProcessed mt ev w msgid)
               in if \<not> isProcessed
                  then [\<lparr>t_content = content, t_msgid = msgid, t_externalUserid = externalUserid,
                         t_sendTime = m_send_time message, t_originalMessage = message\<rparr>]
                  else [])
            else [])
      else [])"

definition scanSorted ::
  "messageTracker option \<Rightarrow> env \<Rightarrow> world \<Rightarrow> wire_message list \<Rightarrow> text_message list" where
  "scanSorted messageTracker ev w allMessages =
     (case allMessages of
        [] \<Rightarrow> []
      | message # rest \<Rightarrow> examineMessage messageTracker ev w message)"

definition getLatestTextMessages ::
  "env \<Rightarrow> world \<Rightarrow> jsstring \<Rightarrow> jsstring \<Rightarrow> messageTracker option
     \<Rightarrow> (error + text_message list) option" where
  "getLatestTextMessages ev w msgToken kfId messageTracker =
     (case syncAllMessages ev msgToken kfId of
        None \<Rightarrow> None
      | Some (Inl e) \<Rightarrow> Some (Inl e)
      | Some (Inr allMessages) \<Rightarrow>
          Some (Inr (scanSorted messageTracker ev w (sortBySendTimeDesc allMessages))))"

section \<open>The Crypto Boundary (crypto.js, WXBizMsgCrypt.decryptMsg)\<close>

text \<open>The return code and the decrypted XML (empty when there is none).  \<open>xml_extract\<close> is
  the match of the \<open>Encrypt\<close> element by \<open>XMLParse.extract\<close>; the signature and the
  decryption come from the remote crypto service.  Every error thrown inside is caught and
  turned into the code -40007.\<close>

definition decryptMsg :: "env \<Rightarrow> jsstring \<Rightarrow> jsstring \<Rightarrow> jsstring \<Rightarrow> jsstring \<Rightarrow> int \<times> jsstring" where
  "decryptMsg ev sPostData sMsgSignature sTimeStamp sNonce =
     (case xml_extract ev sPostData of
        None \<Rightarrow> (- 40002, [])
      | Some encrypt \<Rightarrow>
          (case crypto_getSignature ev sTimeStamp sNonce encrypt of
             Inl e \<Rightarrow> (- 40007, [])
           | Inr signature \<Rightarrow>
               if signature \<noteq> sMsgSignature then (- 40001, [])
               else (case crypto_decrypt ev encrypt of
                       Inl e \<Rightarrow> (- 40007, [])
                     | Inr message \<Rightarrow> (0, message))))"

section \<open>The Callback Orchestrator (index.js)\<close>

text \<open>\<open>error.message\<close>.\<close>

fun error_message :: "error \<Rightarrow> jsstring" where
  "error_message (Error m) = m"

definition emptyMetadata :: metadata where
  "emptyMetadata =
     \<lparr>md_timestamp = None, md_nonce = None, md_externalUserid = None, md_content = None,
      md_assistantMessage = None, md_error = None, md_success = False\<rparr>"

text \<open>\<open>'AI ...'\<close>, the error thrown on an empty reply, and the apology sent to the user.\<close>

definition emptyReplyError :: error where
  "emptyReplyError = Error [0x41, 0x49, 0x20, 0x8FD4, 0x56DE, 0x7A7A, 0x56DE, 0x590D]"

definition errorMessage :: jsstring where
  "errorMessage =
     [0x62B1, 0x6B49, 0xFF0C, 0x41, 0x49, 0x670D, 0x52A1, 0x6682, 0x65F6, 0x4E0D, 0x53EF,
      0x7528, 0xFF0C, 0x8BF7, 0x7A0D, 0x540E, 0x518D, 0x8BD5, 0x3002]"

definition notConfiguredError :: error where
  "notConfiguredError =
     Error (js ''CONVERSATIONS or MESSAGE_TRACKER KV namespace not configured'')"

text \<open>
  The \<open>try\<close> block of \<open>processUserMessage\<close>.  \<open>chatCompletion\<close> stands for
  \<open>getAIConfig\<close>, \<open>validateAIConfig\<close>, the client's constructor, the completion call and
  the reading of \<open>response.choices?.[0]?.message?.content\<close>: each of them throws into the
  same \<open>catch\<close>, after the user's message was appended and before anything is sent.
\<close>

definition replyAttempt ::
  "env \<Rightarrow> messageTracker \<Rightarrow> jsstring \<Rightarrow> jsstring \<Rightarrow> jsstring \<Rightarrow> jsstring \<Rightarrow> world
     \<Rightarrow> unit outcome option" where
  "replyAttempt ev mt externalUserid content msgid msgKfId w =
     (let cm = new_ConversationManager 10 86400 (SYSTEM_PROMPT ev)
      in case cm_processUserMessage cm ev externalUserid content w of
           (Inl e, w1) \<Rightarrow> Some (Inl e, w1)
         | (Inr aiMessages, w1) \<Rightarrow>
             (case chatCompletion ev aiMessages of
                Inl e \<Rightarrow> Some (Inl e, w1)
              | Inr None \<Rightarrow> Some (Inl emptyReplyError, w1)
              | Inr (Some assistantMessage) \<Rightarrow>
                  if assistantMessage = [] then Some (Inl emptyReplyError, w1)
                  else
                    (case completeAssistantReply cm ev externalUserid assistantMessage w1 of
                       (Inl e, w2) \<Rightarrow> Some (Inl e, w2)
                     | (Inr h, w2) \<Rightarrow>
                         (case dispatchReply ev externalUserid msgKfId msgid content
                                 assistantMessage w2 of
                            None \<Rightarrow> None
                          | Some (Inl e, w3) \<Rightarrow> Some (Inl e, w3)
                          | Some (Inr u, w3) \<Rightarrow>
                              (case markMessageAsProcessed mt ev msgid
                                      (emptyMetadata\<lparr>md_externalUserid := Some externalUserid,
                                         md_content := Some content,
                                         md_assistantMessage := Some assistantMessage,
                                         md_success := True\<rparr>) w3 of
                                 (Inl e, w4) \<Rightarrow> Some (Inl e, w4)
                               | (Inr b, w4) \<Rightarrow> Some (Inr (), w4))))))"

text \<open>\<open>processUserMessage\<close>: the configuration check, the Ledger check, the \<open>try\<close> block and
  its \<open>catch\<close> (the apology, whose own failure is swallowed, then the failure record).\<close>

definition processUserMessage ::
  "env \<Rightarrow> jsstring \<Rightarrow> jsstring \<Rightarrow> jsstring \<Rightarrow> jsstring \<Rightarrow> world \<Rightarrow> unit outcome option" where
  "processUserMessage ev externalUserid content msgid msgKfId w =
     (if \<not> CONVERSATIONS_bound ev \<or> \<not> MESSAGE_TRACKER_bound ev
      then Some (Inl notConfiguredError, w)
      else
        (let mt = new_MessageTracker 0 []
         in if isMessageProcessed mt ev w msgid then Some (Inr (), w)
            else
              (case replyAttempt ev mt externalUserid content msgid msgKfId w of
                 None \<Rightarrow> None
               | Some (Inr u, w') \<Rightarrow> Some (Inr (), w')
               | Some (Inl err, w') \<Rightarrow>
                   (let w'' = snd (sendTextMessage ev externalUserid msgKfId errorMessage w')
                    in case markMessageAsProcessed mt ev msgid
                              (emptyMetadata\<lparr>md_externalUserid := Some externalUserid,
                                 md_content := Some content,
                                 md_error := Some (error_message err),
                                 md_success := False\<rparr>) w'' of
                         (Inl e, w3) \<Rightarrow> Some (Inl e, w3)
                       | (Inr b, w3) \<Rightarrow> Some (Inr (), w3)))))"

record params =
  msgSignature :: jsstring
  timestamp :: jsstring
  nonce :: jsstring

text \<open>The error of the \<open>WXBizMsgCrypt\<close> constructor when one of its three settings is
  missing.\<close>

definition emptyParameterError :: error where
  "emptyParameterError = Error [0x53C2, 0x6570, 0x4E0D, 0x80FD, 0x4E3A, 0x7A7A]"

text \<open>
  The \<open>try\<close> block of \<open>handleCallbackAsync\<close>.  \<open>parseXML\<close> gives \<open>xml.Token || ''\<close> and
  \<open>xml.OpenKfId || ''\<close>, or the error thrown when the text has no \<open>xml\<close> element.  A nonzero
  return code of \<open>decryptMsg\<close> is logged and the function returns at once.
\<close>

definition callbackAttempt ::
  "env \<Rightarrow> messageTracker \<Rightarrow> jsstring \<Rightarrow> params \<Rightarrow> world \<Rightarrow> unit outcome option" where
  "callbackAttempt ev messageTracker postData ps w =
     (if \<not> WECHAT_configured ev then Some (Inl emptyParameterError, w)
      else
        (case decryptMsg ev postData (msgSignature ps) (timestamp ps) (nonce ps) of
           (ret, decryptedXml) \<Rightarrow>
             if ret \<noteq> 0 then Some (Inr (), w)
             else
               (case parseXML ev decryptedXml of
                  Inl e \<Rightarrow> Some (Inl e, w)
                | Inr (token, kfId) \<Rightarrow>
                    (case getLatestTextMessages ev w token kfId (Some messageTracker) of
                       None \<Rightarrow> None
                     | Some (Inl e) \<Rightarrow> Some (Inl e, w)
                     | Some (Inr unprocessedMessages) \<Rightarrow>
                         (case (if length unprocessedMessages > 0
                                then (let latestMessage = hd unprocessedMessages
                                      in processUserMessage ev (t_externalUserid latestMessage)
                                           (t_content latestMessage) (t_msgid latestMessage) kfId w)
                                else Some (Inr (), w)) of
                            None \<Rightarrow> None
                          | Some (Inl e, w1) \<Rightarrow> Some (Inl e, w1)
                          | Some (Inr u, w1) \<Rightarrow>
                              (case markMessageAsProcessed messageTracker ev (msgSignature ps)
                                      (emptyMetadata\<lparr>md_timestamp := Some (timestamp ps),
                                         md_nonce := Some (nonce ps),
                                         md_success := True\<rparr>) w1 of
                                 (Inl e, w2) \<Rightarrow> Some (Inl e, w2)
                               | (Inr b, w2) \<Rightarrow> Some (Inr (), w2)))))))"

text \<open>\<open>handleCallbackAsync\<close>: the \<open>catch\<close> records the call as failed; if that write
  throws, the function itself throws.\<close>

definition handleCallbackAsync ::
  "env \<Rightarrow> jsstring \<Rightarrow> params \<Rightarrow> world \<Rightarrow> unit outcome option" where
  "handleCallbackAsync ev postData ps w =
     (let messageTracker = new_MessageTracker 0 []
      in case callbackAttempt ev messageTracker postData ps w of
           None \<Rightarrow> None
         | Some (Inr u, w') \<Rightarrow> Some (Inr (), w')
         | Some (Inl err, w') \<Rightarrow>
             (case markMessageAsProcessed messageTracker ev (msgSignature ps)
                     (emptyMetadata\<lparr>md_timestamp := Some (timestamp ps),
                        md_nonce := Some (nonce ps),
                        md_error := Some (error_message err),
                        md_success := False\<rparr>) w' of
                (Inl e, w2) \<Rightarrow> Some (Inl e, w2)
              | (Inr b, w2) \<Rightarrow> Some (Inr (), w2)))"

section \<open>Auxiliary notions for the statements\<close>

text \<open>The chunks of a list, \<open>len\<close> elements at a time: what \<open>splitStringByLength\<close>
  returns when \<open>len\<close> is positive.\<close>

function chunks :: "nat \<Rightarrow> 'a list \<Rightarrow> 'a list list" where
  "chunks len xs = (if xs = [] \<or> len = 0 then [] else take len xs # chunks len (drop len xs))"
  by pat_completeness auto
termination
  by (relation "measure (\<lambda>(len, xs). length xs)") auto

declare chunks.simps [simp del]

text \<open>A run in which nothing fails and the mailbox is empty, and the state before
  anything was stored or sent; the concrete runs below are variations of them.\<close>

definition example_env :: env where
  "example_env =
     \<lparr>now = 1700000000, WECHAT_configured = True, CONVERSATIONS_bound = True,
      MESSAGE_TRACKER_bound = True, SYSTEM_PROMPT = [],
      tracker_get_error = (\<lambda>key. None), tracker_put_error = (\<lambda>key. None),
      conversations_get_error = (\<lambda>key. None), conversations_put_error = (\<lambda>key. None),
      xml_extract = (\<lambda>postData. Some (js ''cipher'')),
      crypto_getSignature = (\<lambda>t n e. Inr (js ''sig'')),
      crypto_decrypt = (\<lambda>e. Inr (js ''xml'')),
      parseXML = (\<lambda>x. Inr (js ''token'', js ''kf'')),
      syncMessages = (\<lambda>t k c. Inr \<lparr>msg_list = Some [], next_cursor = None\<rparr>),
      chatCompletion = (\<lambda>ms. Inr (Some (js ''hello''))),
      send_text_error = (\<lambda>u k c. None),
      uploadMedia = (\<lambda>t f n. Inr (js ''media'')),
      send_file_error = (\<lambda>u k i. None)\<rparr>"

definition empty_world :: world where
  "empty_world = \<lparr>MESSAGE_TRACKER = Map.empty, CONVERSATIONS = Map.empty, outbox = []\<rparr>"

text \<open>Every call on the messaging gateway succeeds; the events of one \<open>wireNote\<close>; the
  events of the loop body at index \<open>i\<close>.\<close>

definition gateway_ok :: "env \<Rightarrow> bool" where
  "gateway_ok ev \<longleftrightarrow>
     (\<forall>u k c. send_text_error ev u k c = None) \<and>
     (\<forall>t f n. \<exists>i. uploadMedia ev t f n = Inr i) \<and>
     (\<forall>u k i. send_file_error ev u k i = None)"

definition noteEvents :: "env \<Rightarrow> jsstring \<Rightarrow> jsstring \<Rightarrow> jsstring \<Rightarrow> jsstring \<Rightarrow> jsstring \<Rightarrow> outbound list" where
  "noteEvents ev externalUserid msgKfId msgid question val =
     (let filename = question @ noteInfix @ msgid @ js ''.txt''
      in case uploadMedia ev (js ''file'') val filename of
           Inl e \<Rightarrow> []
         | Inr media_id \<Rightarrow>
             [MediaUpload (js ''file'') val filename, FileMessage externalUserid msgKfId media_id])"

definition chunkEvents ::
  "env \<Rightarrow> jsstring \<Rightarrow> jsstring \<Rightarrow> jsstring \<Rightarrow> jsstring \<Rightarrow> jsstring \<Rightarrow> jsstring list \<Rightarrow> nat \<Rightarrow> outbound list" where
  "chunkEvents ev externalUserid msgKfId msgid content assistantMessage messageChunks i =
     (if i + 1 = messageChunkCount \<or> i = length messageChunks - 1
      then noteEvents ev externalUserid msgKfId msgid content assistantMessage
      else [TextMessage externalUserid msgKfId (messageChunks ! i)])"

text \<open>The texts sent as chat messages and the contents of the files uploaded, in order.\<close>

fun sentTexts :: "outbound list \<Rightarrow> jsstring list" where
  "sentTexts [] = []"
| "sentTexts (TextMessage u k c # rest) = c # sentTexts rest"
| "sentTexts (MediaUpload t f n # rest) = sentTexts rest"
| "sentTexts (FileMessage u k i # rest) = sentTexts rest"

fun sentFiles :: "outbound list \<Rightarrow> jsstring list" where
  "sentFiles [] = []"
| "sentFiles (TextMessage u k c # rest) = sentFiles rest"
| "sentFiles (MediaUpload t f n # rest) = f # sentFiles rest"
| "sentFiles (FileMessage u k i # rest) = sentFiles rest"


text \<open>The accumulation loop cut off after \<open>n\<close> page fetches: \<open>None\<close> when \<open>n\<close> fetches
  do not reach the end.\<close>

fun syncAllFuel ::
  "nat \<Rightarrow> env \<Rightarrow> jsstring \<Rightarrow> jsstring \<Rightarrow> jsstring option \<Rightarrow> wire_message list
     \<Rightarrow> (error + wire_message list) option" where
  "syncAllFuel 0 ev msgToken kfId cursor allMessages = None"
| "syncAllFuel (Suc n) ev msgToken kfId cursor allMessages =
     (case syncMessages ev msgToken kfId cursor of
        Inl e \<Rightarrow> Some (Inl e)
      | Inr messages \<Rightarrow>
          (let msgList = (case msg_list messages of None \<Rightarrow> [] | Some l \<Rightarrow> l);
               allMessages' = allMessages @ msgList;
               cursor' = next_cursor messages
           in if cursor' = None \<or> cursor' = Some [] \<or> length msgList = 0
              then Some (Inr allMessages')
              else syncAllFuel n ev msgToken kfId cursor' allMessages'))"

text \<open>Two text messages of one user, the second sent later; a mailbox that returns both
  in one page; and a remote that answers every fetch with a message and a further cursor.\<close>

definition hello_message :: wire_message where
  "hello_message =
     \<lparr>m_msgtype = js ''text'', m_send_time = Some 100, m_text_content = Some (js ''hi''),
      m_msgid = Some (js ''m1''), m_external_userid = Some (js ''user'')\<rparr>"

definition endless_env :: env where
  "endless_env =
     example_env\<lparr>syncMessages :=
       (\<lambda>t k c. Inr \<lparr>msg_list = Some [hello_message], next_cursor = Some (js ''next'')\<rparr>)\<rparr>"

definition older_message :: wire_message where
  "older_message =
     \<lparr>m_msgtype = js ''text'', m_send_time = Some 50, m_text_content = Some (js ''first''),
      m_msgid = Some (js ''m0''), m_external_userid = Some (js ''user'')\<rparr>"

definition two_message_env :: env where
  "two_message_env =
     example_env\<lparr>syncMessages :=
       (\<lambda>t k c. Inr \<lparr>msg_list = Some [older_message, hello_message], next_cursor = None\<rparr>)\<rparr>"

text \<open>In the spec's words: a text-type message with non-empty content and id that the
  Ledger reports unprocessed; and the object emitted for a message.\<close>

definition unprocessedText :: "messageTracker \<Rightarrow> env \<Rightarrow> world \<Rightarrow> wire_message \<Rightarrow> bool" where
  "unprocessedText mt ev w m \<longleftrightarrow>
     m_msgtype m = js ''text'' \<and>
     (case m_text_content m of None \<Rightarrow> False | Some c \<Rightarrow> c \<noteq> []) \<and>
     (case m_msgid m of None \<Rightarrow> False | Some i \<Rightarrow> i \<noteq> [] \<and> \<not> isMessageProcessed mt ev w i)"

definition emitted :: "wire_message \<Rightarrow> text_message" where
  "emitted m =
     \<lparr>t_content = (case m_text_content m of None \<Rightarrow> [] | Some c \<Rightarrow> c),
      t_msgid = (case m_msgid m of None \<Rightarrow> [] | Some i \<Rightarrow> i),
      t_externalUserid = (case m_external_userid m of None \<Rightarrow> [] | Some u \<Rightarrow> u),
      t_sendTime = m_send_time m, t_originalMessage = m\<rparr>"

text \<open>Runs in which every read and write of the Ledger fails, and in which every read
  of the Context Store fails; a conversation stored under an old preamble.\<close>

definition failing_tracker_env :: env where
  "failing_tracker_env =
     example_env\<lparr>tracker_get_error := (\<lambda>key. Some (Error (js ''KV GET failed''))),
                  tracker_put_error := (\<lambda>key. Some (Error (js ''KV PUT failed'')))\<rparr>"

definition failing_conversations_env :: env where
  "failing_conversations_env =
     example_env\<lparr>conversations_get_error := (\<lambda>key. Some (Error (js ''KV GET failed'')))\<rparr>"

definition stale_entry :: entry where
  "stale_entry = \<lparr>e_role = System, e_content = js ''old prompt'', e_timestamp = None\<rparr>"

definition question_entry :: entry where
  "question_entry = \<lparr>e_role = User, e_content = js ''hi'', e_timestamp = Some 1600000000\<rparr>"

definition stale_world :: world where
  "stale_world =
     empty_world\<lparr>CONVERSATIONS :=
       [getConversationKey (js ''user'') \<mapsto> (History [stale_entry, question_entry], 86400)]\<rparr>"

text \<open>
  A sequence of appends to one user's window, each in its own run (its own clock and
  storage behaviour); it stops at the first append that throws.  \<open>conversations_ok\<close>: the
  Context Store is bound and its reads and writes succeed.  \<open>storedHistory\<close> is the JSON text
  kept for a user, \<open>storedRest\<close> what a read keeps of it after the preamble, \<open>lastN\<close> the last
  \<open>n\<close> elements of a list.
\<close>

datatype append_op = AppendUser jsstring | AppendAssistant jsstring

fun opEntry :: "env \<Rightarrow> append_op \<Rightarrow> entry" where
  "opEntry ev (AppendUser c) = \<lparr>e_role = User, e_content = c, e_timestamp = Some (now ev)\<rparr>"
| "opEntry ev (AppendAssistant c) = \<lparr>e_role = Assistant, e_content = c, e_timestamp = Some (now ev)\<rparr>"

fun applyOp :: "conversationManager \<Rightarrow> env \<Rightarrow> jsstring \<Rightarrow> append_op \<Rightarrow> world \<Rightarrow> (entry list) outcome" where
  "applyOp cm ev userId (AppendUser c) w = addUserMessage cm ev userId c w"
| "applyOp cm ev userId (AppendAssistant c) w = addAssistantMessage cm ev userId c w"

fun appendAll :: "conversationManager \<Rightarrow> jsstring \<Rightarrow> (env \<times> append_op) list \<Rightarrow> world \<Rightarrow> error + world" where
  "appendAll cm userId [] w = Inr w"
| "appendAll cm userId ((ev, op) # rest) w =
     (case applyOp cm ev userId op w of
        (Inl e, w') \<Rightarrow> Inl e
      | (Inr h, w') \<Rightarrow> appendAll cm userId rest w')"

definition conversations_ok :: "env \<Rightarrow> bool" where
  "conversations_ok ev \<longleftrightarrow>
     CONVERSATIONS_bound ev \<and> (\<forall>key. conversations_get_error ev key = None) \<and>
     (\<forall>key. conversations_put_error ev key = None)"

definition storedHistory :: "world \<Rightarrow> jsstring \<Rightarrow> history_json option" where
  "storedHistory w userId = map_option fst (CONVERSATIONS w (getConversationKey userId))"

definition lastN :: "nat \<Rightarrow> 'a list \<Rightarrow> 'a list" where
  "lastN n xs = drop (length xs - n) xs"

fun storedRest :: "history_json option \<Rightarrow> entry list" where
  "storedRest None = []"
| "storedRest (Some Malformed) = []"
| "storedRest (Some (History h)) = (if length h > 0 \<and> e_role (hd h) = System then tl h else h)"

text \<open>A callback as the platform delivers it, and runs in which the signature does not
  match, the decryption fails, or the remote sync fails; the state after a first delivery
  whose sync failed (the call recorded as failed, nothing else).\<close>

definition example_params :: params where
  "example_params = \<lparr>msgSignature = js ''sig'', timestamp = js ''1700000000'', nonce = js ''n1''\<rparr>"

definition example_post :: jsstring where
  "example_post = js ''<xml><Encrypt>cipher</Encrypt></xml>''"

definition bad_signature_env :: env where
  "bad_signature_env = example_env\<lparr>crypto_getSignature := (\<lambda>t n e. Inr (js ''forged''))\<rparr>"

definition decrypt_error_env :: env where
  "decrypt_error_env =
     example_env\<lparr>crypto_decrypt := (\<lambda>e. Inl (Error (js ''Crypto service error: 500'')))\<rparr>"

definition sync_failing_env :: env where
  "sync_failing_env =
     example_env\<lparr>syncMessages := (\<lambda>t k c. Inl (Error (js ''sync failed'')))\<rparr>"

definition after_failed_call :: world where
  "after_failed_call =
     empty_world\<lparr>MESSAGE_TRACKER :=
       [js ''processed_msg:sig'' \<mapsto>
          (\<lparr>pr_msgId = js ''sig'', pr_processedAt = 1700000000,
            pr_metadata = emptyMetadata\<lparr>md_timestamp := Some (js ''1700000000''),
              md_nonce := Some (js ''n1''), md_error := Some (js ''sync failed''),
              md_success := False\<rparr>\<rparr>, 86400)]\<rparr>"

text \<open>The state after a second delivery of that call whose sync returned the two
  messages: the newer one answered and recorded, the call recorded as a success.\<close>

definition after_repeated_call :: world where
  "after_repeated_call =
     \<lparr>MESSAGE_TRACKER =
        [js ''processed_msg:m1'' \<mapsto>
           (\<lparr>pr_msgId = js ''m1'', pr_processedAt = 1700000000,
             pr_metadata = emptyMetadata\<lparr>md_externalUserid := Some (js ''user''),
               md_content := Some (js ''hi''), md_assistantMessage := Some (js ''hello''),
               md_success := True\<rparr>\<rparr>, 86400),
         js ''processed_msg:sig'' \<mapsto>
           (\<lparr>pr_msgId = js ''sig'', pr_processedAt = 1700000000,
             pr_metadata = emptyMetadata\<lparr>md_timestamp := Some (js ''1700000000''),
               md_nonce := Some (js ''n1''), md_success := True\<rparr>\<rparr>, 86400)],
      CONVERSATIONS =
        [js ''conversation:user'' \<mapsto>
           (History
             [\<lparr>e_role = System, e_content = js ''you are helpful assistant'', e_timestamp = None\<rparr>,
              \<lparr>e_role = User, e_content = js ''hi'', e_timestamp = Some 1700000000\<rparr>,
              \<lparr>e_role = Assistant, e_content = js ''hello'', e_timestamp = Some 1700000000\<rparr>],
            86400)],
      outbox = [TextMessage (js ''user'') (js ''kf'') (js ''hello'')]\<rparr>"

text \<open>Runs in which the completion answers with 1025 tab characters, with 2000 letters
  \<open>a\<close>, and with an error; the state after the message \<open>m1\<close> was answered with the tabs.\<close>

definition blank_reply_env :: env where
  "blank_reply_env = example_env\<lparr>chatCompletion := (\<lambda>ms. Inr (Some (replicate 1025 0x9)))\<rparr>"

definition long_reply_env :: env where
  "long_reply_env = example_env\<lparr>chatCompletion := (\<lambda>ms. Inr (Some (replicate 2000 0x61)))\<rparr>"

definition failing_ai_env :: env where
  "failing_ai_env = example_env\<lparr>chatCompletion := (\<lambda>ms. Inl (Error (js ''AI failed'')))\<rparr>"

definition after_blank_reply :: world where
  "after_blank_reply =
     \<lparr>MESSAGE_TRACKER =
        [js ''processed_msg:m1'' \<mapsto>
           (\<lparr>pr_msgId = js ''m1'', pr_processedAt = 1700000000,
             pr_metadata = emptyMetadata\<lparr>md_externalUserid := Some (js ''user''),
               md_content := Some (js ''hi''),
               md_assistantMessage := Some (replicate 1025 0x9),
               md_success := True\<rparr>\<rparr>, 86400)],
      CONVERSATIONS =
        [js ''conversation:user'' \<mapsto>
           (History
             [\<lparr>e_role = System, e_content = js ''you are helpful assistant'', e_timestamp = None\<rparr>,
              \<lparr>e_role = User, e_content = js ''hi'', e_timestamp = Some 1700000000\<rparr>,
              \<lparr>e_role = Assistant, e_content = replicate 1025 0x9, e_timestamp = Some 1700000000\<rparr>],
            86400)],
      outbox = []\<rparr>"

text \<open>An event that is not a text message, sent after the two text messages, and a mailbox
  that returns the three in one page.\<close>

definition event_message :: wire_message where
  "event_message =
     \<lparr>m_msgtype = js ''event'', m_send_time = Some 200, m_text_content = None,
      m_msgid = Some (js ''e1''), m_external_userid = None\<rparr>"

definition event_newest_env :: env where
  "event_newest_env =
     example_env\<lparr>syncMessages :=
       (\<lambda>t k c. Inr \<lparr>msg_list = Some [older_message, hello_message, event_message],
                     next_cursor = None\<rparr>)\<rparr>"

section \<open>Splitting and dispatching\<close>

lemma chunks_Nil: "chunks len [] = []"
  by (simp add: chunks.simps)

lemma chunks_step: "xs \<noteq> [] \<Longrightarrow> 0 < len \<Longrightarrow> chunks len xs = take len xs # chunks len (drop len xs)"
  by (subst chunks.simps) simp

lemma splitLoop_chunks:
  "0 < len \<Longrightarrow> splitLoop str len index result = Some (result @ chunks len (drop index str))"
proof (induction "length str - index" arbitrary: index result rule: less_induct)
  case less
  show ?case
  proof (cases "index < length str")
    case True
    then have ne: "drop index str \<noteq> []" by simp
    have "length str - (index + len) < length str - index"
      using True less.prems by arith
    from less.hyps [OF this less.prems]
    have "splitLoop str len (index + len) (result @ [js_slice str index (index + len)]) =
            Some ((result @ [js_slice str index (index + len)]) @ chunks len (drop (index + len) str))" .
    moreover have "js_slice str index (index + len) = take len (drop index str)"
      by (simp add: js_slice_def)
    moreover have "drop (index + len) str = drop len (drop index str)"
      by (simp add: add.commute)
    ultimately show ?thesis
      using True by (subst splitLoop.simps) (simp add: chunks_step [OF ne less.prems])
  next
    case False
    then show ?thesis
      by (subst splitLoop.simps) (simp add: chunks_Nil)
  qed
qed

lemma concat_chunks: "0 < len \<Longrightarrow> concat (chunks len xs) = xs"
proof (induction len xs rule: chunks.induct)
  case (1 len xs)
  then show ?case
    by (cases "xs = []") (simp_all add: chunks_Nil chunks_step)
qed

lemma length_chunks: "0 < len \<Longrightarrow> length xs \<le> k * len \<Longrightarrow> length (chunks len xs) \<le> k"
proof (induction len xs arbitrary: k rule: chunks.induct)
  case (1 len xs)
  show ?case
  proof (cases "xs = []")
    case True then show ?thesis by (simp add: chunks_Nil)
  next
    case False
    with "1.prems" obtain k' where k: "k = Suc k'" by (cases k) auto
    have "length (drop len xs) \<le> k' * len" using "1.prems" k by simp
    from "1.IH" [OF _ "1.prems"(1) this] False "1.prems"(1)
    have "length (chunks len (drop len xs)) \<le> k'" by simp
    then show ?thesis using False "1.prems" k by (simp add: chunks_step)
  qed
qed

lemma chunks6000: "chunks 1024 (replicate 6000 (0x61::16 word)) =
  [replicate 1024 0x61, replicate 1024 0x61, replicate 1024 0x61, replicate 1024 0x61, replicate 1024 0x61, replicate 880 0x61]"
  by (simp add: chunks_step chunks_Nil)

lemma dropWhile_replicate: "\<not> P x \<Longrightarrow> dropWhile P (replicate n x) = replicate n x"
  by (cases n) simp_all

lemma trim_replicate: "\<not> isWhiteSpace c \<Longrightarrow> trim (replicate n c) = replicate n c"
  by (simp add: trim_def dropWhile_replicate)

lemma nws: "\<not> isWhiteSpace 0x61"
  by (simp add: isWhiteSpace_def)


lemma wireNote_ok:
  "gateway_ok ev \<Longrightarrow>
   wireNote ev u k m q a w = (Inr (), w\<lparr>outbox := outbox w @ noteEvents ev u k m q a\<rparr>)"
proof -
  assume g: "gateway_ok ev"
  then obtain i where "uploadMedia ev (js ''file'') a (q @ noteInfix @ m @ js ''.txt'') = Inr i"
    unfolding gateway_ok_def by blast
  then show ?thesis
    using g by (simp add: gateway_ok_def wireNote_def noteEvents_def sendFileMessage_def)
qed

lemma sendTextMessage_ok:
  "gateway_ok ev \<Longrightarrow>
   sendTextMessage ev u k c w = (Inr (), w\<lparr>outbox := outbox w @ [TextMessage u k c]\<rparr>)"
  by (simp add: gateway_ok_def sendTextMessage_def)

lemma sendChunks_ok:
  "gateway_ok ev \<Longrightarrow>
   sendChunks ev u k m q a cs i w =
     (Inr (), w\<lparr>outbox := outbox w @ concat (map (chunkEvents ev u k m q a cs) [i..<length cs])\<rparr>)"
proof (induction "length cs - i" arbitrary: i w)
  case 0
  then show ?case by (subst sendChunks.simps) simp
next
  case (Suc n)
  then have lt: "i < length cs" and n: "n = length cs - Suc i" by arith+
  have IH: "sendChunks ev u k m q a cs (Suc i) w' =
      (Inr (), w'\<lparr>outbox := outbox w' @ concat (map (chunkEvents ev u k m q a cs) [Suc i..<length cs])\<rparr>)"
    for w'
    by (rule Suc.hyps(1) [OF n Suc.prems])
  have upt: "[i..<length cs] = i # [Suc i..<length cs]"
    using lt by (simp add: upt_conv_Cons)
  show ?case
    using lt Suc.prems
    by (subst sendChunks.simps)
       (simp add: IH upt wireNote_ok sendTextMessage_ok chunkEvents_def del: upt_Suc)
qed

lemma map_nth_butlast: "map ((!) cs) [0..<length cs - 1] = butlast cs"
proof -
  have "map ((!) cs) [0..<length cs - 1] = map ((!) (butlast cs)) [0..<length (butlast cs)]"
    by (rule map_cong) (simp_all add: nth_butlast)
  also have "\<dots> = butlast cs" by (rule map_nth)
  finally show ?thesis .
qed

lemma concat_singletons: "concat (map (\<lambda>i. [f i]) xs) = map f xs"
  by (induction xs) simp_all

lemma events_few_chunks:
  assumes "length cs \<le> 4"
  shows "concat (map (chunkEvents ev u k m q a cs) [0..<length cs]) =
           map (TextMessage u k) (butlast cs) @ (if cs = [] then [] else noteEvents ev u k m q a)"
proof (cases "cs = []")
  case True
  then show ?thesis by simp
next
  case False
  then have upt: "[0..<length cs] = [0..<length cs - 1] @ [length cs - 1]"
    by (metis One_nat_def Suc_pred length_greater_0_conv upt_Suc_append zero_le)
  have texts: "map (chunkEvents ev u k m q a cs) [0..<length cs - 1] =
               map (\<lambda>i. [TextMessage u k (cs ! i)]) [0..<length cs - 1]"
    using assms by (intro map_cong refl) (auto simp: chunkEvents_def messageChunkCount_def)
  have "concat (map (\<lambda>i. [TextMessage u k (cs ! i)]) [0..<length cs - 1]) =
        map (\<lambda>i. TextMessage u k (cs ! i)) [0..<length cs - 1]"
    by (rule concat_singletons)
  also have "\<dots> = map (TextMessage u k) (map ((!) cs) [0..<length cs - 1])"
    by (simp add: o_def)
  finally have "concat (map (chunkEvents ev u k m q a cs) [0..<length cs - 1]) =
        map (TextMessage u k) (butlast cs)"
    by (simp only: texts map_nth_butlast)
  moreover have "chunkEvents ev u k m q a cs (length cs - 1) = noteEvents ev u k m q a"
    by (simp add: chunkEvents_def)
  ultimately show ?thesis
    using False by (subst upt) simp
qed

lemma length_trim_le: "length (trim s) \<le> length s"
proof -
  have "length (trim s) \<le> length (dropWhile isWhiteSpace s)"
    unfolding trim_def by (simp add: length_dropWhile_le order_trans [OF length_dropWhile_le])
  also have "\<dots> \<le> length s" by (rule length_dropWhile_le)
  finally show ?thesis .
qed

lemma trim_blank: "isWhiteSpace c \<Longrightarrow> trim (replicate n c) = []"
  by (simp add: trim_def dropWhile_eq_Nil_conv)

lemma sendChunks_Nil: "sendChunks ev u k m q a [] i w = (Inr (), w)"
  by (subst sendChunks.simps) simp

lemma split_chunks:
  "splitStringByLength s messageChunkSize = Some (chunks messageChunkSize s)"
  by (simp add: splitStringByLength_def splitLoop_chunks messageChunkSize_def)

lemma dispatchReply_ok:
  assumes "gateway_ok ev"
  shows "dispatchReply ev u k m q a w =
     Some (Inr (), w\<lparr>outbox := outbox w @
       (if length a \<le> messageChunkSize then [TextMessage u k a]
        else concat (map (chunkEvents ev u k m q a (chunks messageChunkSize (trim a)))
               [0..<length (chunks messageChunkSize (trim a))]))\<rparr>)"
  using assms
  by (simp add: dispatchReply_def split_chunks sendChunks_ok sendTextMessage_ok not_less [symmetric])


text \<open>
  Claim C3.  A reply of 6000 code units without white space splits into six chunks at
  1024.  The loop sends the first four as text and uploads and sends the whole reply as a file
  at index 4; it then goes on to index 5, the last, where it uploads and sends the file a
  second time.  So the claim of exactly one upload and one file, and of nothing sent after
  the file, fails on the claim's own example.
\<close>

theorem dispatch_6000_sends_file_twice:
  "dispatchReply example_env (js ''user'') (js ''kf'') (js ''m1'') (js ''q'')
     (replicate 6000 0x61) empty_world =
   Some (Inr (), empty_world\<lparr>outbox :=
     [TextMessage (js ''user'') (js ''kf'') (replicate 1024 0x61),
      TextMessage (js ''user'') (js ''kf'') (replicate 1024 0x61),
      TextMessage (js ''user'') (js ''kf'') (replicate 1024 0x61),
      TextMessage (js ''user'') (js ''kf'') (replicate 1024 0x61),
      MediaUpload (js ''file'') (replicate 6000 0x61) (js ''q'' @ noteInfix @ js ''m1'' @ js ''.txt''),
      FileMessage (js ''user'') (js ''kf'') (js ''media''),
      MediaUpload (js ''file'') (replicate 6000 0x61) (js ''q'' @ noteInfix @ js ''m1'' @ js ''.txt''),
      FileMessage (js ''user'') (js ''kf'') (js ''media'')]\<rparr>)"
proof -
  have g: "gateway_ok example_env"
    by (simp add: gateway_ok_def example_env_def)
  have split: "splitStringByLength (trim (replicate 6000 0x61)) 1024 =
      Some [replicate 1024 0x61, replicate 1024 0x61, replicate 1024 0x61, replicate 1024 0x61, replicate 1024 0x61, replicate 880 0x61]"
    by (simp add: splitStringByLength_def splitLoop_chunks trim_replicate nws chunks6000)
  have upt6: "[0..<6] = [0, 1, 2, 3, 4, 5::nat]"
    by (simp add: upt_rec)
  show ?thesis
    apply (simp add: dispatchReply_def split sendChunks_ok [OF g] messageChunkSize_def)
    apply (simp add: chunkEvents_def messageChunkCount_def noteEvents_def example_env_def
          empty_world_def)
    done
qed



text \<open>
  Claim C4, as the code has it.  A reply of at most \<open>messageChunkSize\<close> code units is sent
  as it is, not trimmed, in one text.  A longer reply of at most four times that length is
  trimmed and split; every chunk but the last is sent as text, in order, and at the last
  index the whole untrimmed reply is uploaded and sent as a file instead of the last chunk
  (nothing at all is sent when the trimmed reply is empty).  The chunks together are the
  trimmed reply, so the texts sent are the trimmed reply without its last chunk.
\<close>

theorem dispatch_up_to_four_chunks:
  assumes "gateway_ok ev" and "length s \<le> 4 * messageChunkSize"
  shows "\<exists>cs mediaId.
           splitStringByLength (trim s) messageChunkSize = Some cs \<and> concat cs = trim s \<and>
           concat (butlast cs) @ (if cs = [] then [] else last cs) = trim s \<and>
           uploadMedia ev (js ''file'') s (q @ noteInfix @ m @ js ''.txt'') = Inr mediaId \<and>
           dispatchReply ev u k m q s w =
             Some (Inr (), w\<lparr>outbox := outbox w @
               (if length s \<le> messageChunkSize then [TextMessage u k s]
                else map (TextMessage u k) (butlast cs) @
                       (if cs = [] then []
                        else [MediaUpload (js ''file'') s (q @ noteInfix @ m @ js ''.txt''),
                              FileMessage u k mediaId]))\<rparr>)"
proof -
  let ?cs = "chunks messageChunkSize (trim s)"
  have pos: "0 < messageChunkSize" by (simp add: messageChunkSize_def)
  have split: "splitStringByLength (trim s) messageChunkSize = Some ?cs"
    by (simp add: splitStringByLength_def splitLoop_chunks [OF pos])
  have cat: "concat ?cs = trim s"
    by (rule concat_chunks [OF pos])
  have cat': "concat (butlast ?cs) @ (if ?cs = [] then [] else last ?cs) = trim s"
  proof (cases "?cs = []")
    case True
    with cat show ?thesis by simp
  next
    case False
    have "concat ?cs = concat (butlast ?cs @ [last ?cs])"
      by (simp only: append_butlast_last_id [OF False])
    also have "\<dots> = concat (butlast ?cs) @ last ?cs" by simp
    finally show ?thesis using False cat by simp
  qed
  obtain mediaId
    where up: "uploadMedia ev (js ''file'') s (q @ noteInfix @ m @ js ''.txt'') = Inr mediaId"
    using assms(1) unfolding gateway_ok_def by blast
  then have evs: "noteEvents ev u k m q s =
      [MediaUpload (js ''file'') s (q @ noteInfix @ m @ js ''.txt''), FileMessage u k mediaId]"
    by (simp add: noteEvents_def)
  have "length (trim s) \<le> 4 * messageChunkSize"
    using assms(2) length_trim_le [of s] by simp
  then have few: "length ?cs \<le> 4"
    by (rule length_chunks [OF pos])
  have "dispatchReply ev u k m q s w =
             Some (Inr (), w\<lparr>outbox := outbox w @
               (if length s \<le> messageChunkSize then [TextMessage u k s]
                else map (TextMessage u k) (butlast ?cs) @
                       (if ?cs = [] then []
                        else [MediaUpload (js ''file'') s (q @ noteInfix @ m @ js ''.txt''),
                              FileMessage u k mediaId]))\<rparr>)"
    using assms(1)
    by (simp add: dispatchReply_def split sendChunks_ok sendTextMessage_ok
          events_few_chunks [OF few] evs not_less [symmetric])
  with split cat cat' up show ?thesis by blast
qed

text \<open>An instance: a reply of 2000 code units, every gateway call succeeding.\<close>

theorem dispatch_up_to_four_chunks_witness:
  "gateway_ok example_env \<and> length (replicate 2000 (0x61::16 word)) \<le> 4 * messageChunkSize \<and>
   (\<exists>cs mediaId.
      splitStringByLength (trim (replicate 2000 0x61)) messageChunkSize = Some cs \<and>
      concat cs = trim (replicate 2000 0x61) \<and>
      concat (butlast cs) @ (if cs = [] then [] else last cs) = trim (replicate 2000 0x61) \<and>
      uploadMedia example_env (js ''file'') (replicate 2000 0x61)
          (js ''q'' @ noteInfix @ js ''m1'' @ js ''.txt'') = Inr mediaId \<and>
      dispatchReply example_env (js ''user'') (js ''kf'') (js ''m1'') (js ''q'')
          (replicate 2000 0x61) empty_world =
        Some (Inr (), empty_world\<lparr>outbox := outbox empty_world @
          (if length (replicate 2000 (0x61::16 word)) \<le> messageChunkSize
           then [TextMessage (js ''user'') (js ''kf'') (replicate 2000 0x61)]
           else map (TextMessage (js ''user'') (js ''kf'')) (butlast cs) @
                  (if cs = [] then []
                   else [MediaUpload (js ''file'') (replicate 2000 0x61)
                           (js ''q'' @ noteInfix @ js ''m1'' @ js ''.txt''),
                         FileMessage (js ''user'') (js ''kf'') mediaId]))\<rparr>))"
proof -
  have g: "gateway_ok example_env"
    by (simp add: gateway_ok_def example_env_def)
  have l: "length (replicate 2000 (0x61::16 word)) \<le> 4 * messageChunkSize"
    by (simp add: messageChunkSize_def)
  show ?thesis
    using g l dispatch_up_to_four_chunks [OF g l, of "js ''q''" "js ''m1''" "js ''user''" "js ''kf''" empty_world]
    by blast
qed

text \<open>
  Claim C4 as stated fails at a reply of 2000 code units: one text of 1024 code units goes
  out, then the file; a file is sent, the last chunk is not sent as text, and the texts
  sent do not add up to the trimmed reply.
\<close>

theorem dispatch_2000_counterexample:
  "length (replicate 2000 (0x61::16 word)) \<le> 4 * messageChunkSize \<and>
   trim (replicate 2000 0x61) = replicate 2000 0x61 \<and>
   dispatchReply example_env (js ''user'') (js ''kf'') (js ''m1'') (js ''q'')
       (replicate 2000 0x61) empty_world =
     Some (Inr (), empty_world\<lparr>outbox :=
       [TextMessage (js ''user'') (js ''kf'') (replicate 1024 0x61),
        MediaUpload (js ''file'') (replicate 2000 0x61) (js ''q'' @ noteInfix @ js ''m1'' @ js ''.txt''),
        FileMessage (js ''user'') (js ''kf'') (js ''media'')]\<rparr>) \<and>
   sentFiles
       [TextMessage (js ''user'') (js ''kf'') (replicate 1024 0x61),
        MediaUpload (js ''file'') (replicate 2000 0x61) (js ''q'' @ noteInfix @ js ''m1'' @ js ''.txt''),
        FileMessage (js ''user'') (js ''kf'') (js ''media'')] = [replicate 2000 0x61] \<and>
   concat (sentTexts
       [TextMessage (js ''user'') (js ''kf'') (replicate 1024 0x61),
        MediaUpload (js ''file'') (replicate 2000 0x61) (js ''q'' @ noteInfix @ js ''m1'' @ js ''.txt''),
        FileMessage (js ''user'') (js ''kf'') (js ''media'')]) \<noteq> trim (replicate 2000 0x61)"
proof -
  have g: "gateway_ok example_env"
    by (simp add: gateway_ok_def example_env_def)
  have chunks2000: "chunks 1024 (replicate 2000 (0x61::16 word)) =
      [replicate 1024 0x61, replicate 976 0x61]"
    by (simp add: chunks_step chunks_Nil)
  have split: "splitStringByLength (trim (replicate 2000 0x61)) 1024 =
      Some [replicate 1024 0x61, replicate 976 0x61]"
    by (simp add: splitStringByLength_def splitLoop_chunks trim_replicate nws chunks2000)
  have run: "dispatchReply example_env (js ''user'') (js ''kf'') (js ''m1'') (js ''q'')
       (replicate 2000 0x61) empty_world =
     Some (Inr (), empty_world\<lparr>outbox :=
       [TextMessage (js ''user'') (js ''kf'') (replicate 1024 0x61),
        MediaUpload (js ''file'') (replicate 2000 0x61) (js ''q'' @ noteInfix @ js ''m1'' @ js ''.txt''),
        FileMessage (js ''user'') (js ''kf'') (js ''media'')]\<rparr>)"
    apply (simp add: dispatchReply_def split sendChunks_ok [OF g] messageChunkSize_def)
    apply (simp add: chunkEvents_def messageChunkCount_def noteEvents_def example_env_def
          empty_world_def)
    done
  have ne: "replicate 1024 (0x61::16 word) \<noteq> replicate 2000 0x61"
    by (simp add: replicate_eq_replicate)
  show ?thesis
    using run ne by (simp add: messageChunkSize_def trim_replicate nws)
qed

section \<open>The Inbox Synchronizer\<close>

lemma syncAllFuel_sound:
  "syncAllFuel n ev t k c acc = Some r \<Longrightarrow> syncAllLoop ev t k c acc = Some r"
proof (induction n arbitrary: c acc)
  case 0
  then show ?case by simp
next
  case (Suc n)
  show ?case
    using Suc.prems Suc.IH
    by (subst syncAllLoop.simps)
       (auto simp: Let_def split: sum.splits if_splits)
qed

lemma syncAllLoop_fuel:
  assumes "syncAllLoop ev t k c acc = Some r"
  shows "\<exists>n. syncAllFuel n ev t k c acc = Some r"
  using assms
proof (induction rule: syncAllLoop.raw_induct [rotated 1, consumes 1])
  case (1 loop ev t k c acc r)
  show ?case
  proof (cases "syncMessages ev t k c")
    case (Inl e)
    with 1(2) have "syncAllFuel (Suc 0) ev t k c acc = Some r" by simp
    then show ?thesis ..
  next
    case (Inr messages)
    let ?l = "case msg_list messages of None \<Rightarrow> [] | Some l \<Rightarrow> l"
    show ?thesis
    proof (cases "next_cursor messages = None \<or> next_cursor messages = Some [] \<or> length ?l = 0")
      case True
      with 1(2) Inr have "syncAllFuel (Suc 0) ev t k c acc = Some r"
        by (simp add: Let_def)
      then show ?thesis ..
    next
      case False
      with 1(2) Inr have "loop ev t k (next_cursor messages) (acc @ ?l) = Some r"
        by (auto simp: Let_def split: if_splits)
      from 1(1) [OF this] obtain n
        where "syncAllFuel n ev t k (next_cursor messages) (acc @ ?l) = Some r" ..
      with False Inr have "syncAllFuel (Suc n) ev t k c acc = Some r"
        by (auto simp: Let_def)
      then show ?thesis ..
    qed
  qed
qed

lemma syncAllFuel_endless:
  assumes "\<forall>cursor. \<exists>ms next.
             syncMessages ev t k cursor = Inr \<lparr>msg_list = Some ms, next_cursor = Some next\<rparr> \<and>
             ms \<noteq> [] \<and> next \<noteq> []"
  shows "syncAllFuel n ev t k c acc = None"
proof (induction n arbitrary: c acc)
  case 0
  show ?case by simp
next
  case (Suc n)
  from assms obtain ms nxt
    where "syncMessages ev t k c = Inr \<lparr>msg_list = Some ms, next_cursor = Some nxt\<rparr>"
      and "ms \<noteq> []" and "nxt \<noteq> []"
    by blast
  then show ?case by (simp add: Suc.IH)
qed

text \<open>
  Claim C10, as the code has it.  The loop of \<open>syncAllMessages\<close> has no cap of its own: it
  returns a result exactly when, for some \<open>n\<close>, the answers of the remote end it within
  \<open>n\<close> page fetches (a fetch that fails, a page without a further cursor, or a page
  without messages); against a remote that answers every fetch with a non-empty page and a
  further cursor it never returns.
\<close>

theorem syncAllMessages_unbounded:
  "(syncAllMessages ev msgToken kfId = Some r \<longleftrightarrow>
      (\<exists>n. syncAllFuel n ev msgToken kfId None [] = Some r)) \<and>
   ((\<forall>cursor. \<exists>ms next.
       syncMessages ev msgToken kfId cursor = Inr \<lparr>msg_list = Some ms, next_cursor = Some next\<rparr> \<and>
       ms \<noteq> [] \<and> next \<noteq> []) \<longrightarrow>
    syncAllMessages ev msgToken kfId = None)"
proof -
  have iff: "syncAllMessages ev msgToken kfId = Some r \<longleftrightarrow>
      (\<exists>n. syncAllFuel n ev msgToken kfId None [] = Some r)" for r
    unfolding syncAllMessages_def
    using syncAllFuel_sound syncAllLoop_fuel by blast
  have "syncAllMessages ev msgToken kfId = None"
    if "\<forall>cursor. \<exists>ms next.
       syncMessages ev msgToken kfId cursor = Inr \<lparr>msg_list = Some ms, next_cursor = Some next\<rparr> \<and>
       ms \<noteq> [] \<and> next \<noteq> []"
  proof (cases "syncAllMessages ev msgToken kfId")
    case None
    then show ?thesis .
  next
    case (Some r')
    with iff obtain n where "syncAllFuel n ev msgToken kfId None [] = Some r'" by blast
    with syncAllFuel_endless [OF that] show ?thesis by simp
  qed
  with iff show ?thesis by blast
qed

lemma syncAll_two_message_env:
  "syncAllMessages two_message_env t k = Some (Inr [older_message, hello_message])"
  unfolding syncAllMessages_def
  by (subst syncAllLoop.simps) (simp add: two_message_env_def)

lemma endless_env_pages:
  "\<forall>cursor. \<exists>ms next.
     syncMessages endless_env t k cursor = Inr \<lparr>msg_list = Some ms, next_cursor = Some next\<rparr> \<and>
     ms \<noteq> [] \<and> next \<noteq> []"
  by (simp add: endless_env_def js_def)

text \<open>Instances: a remote that returns everything in one page (one fetch suffices), and a
  remote that always returns a message and a further cursor (no number of fetches suffices).\<close>

theorem syncAllMessages_unbounded_witness:
  "syncAllFuel 1 two_message_env (js ''token'') (js ''kf'') None [] =
     Some (Inr [older_message, hello_message]) \<and>
   syncAllMessages two_message_env (js ''token'') (js ''kf'') =
     Some (Inr [older_message, hello_message]) \<and>
   (\<forall>cursor. \<exists>ms next.
      syncMessages endless_env (js ''token'') (js ''kf'') cursor =
        Inr \<lparr>msg_list = Some ms, next_cursor = Some next\<rparr> \<and> ms \<noteq> [] \<and> next \<noteq> []) \<and>
   (\<forall>n. syncAllFuel n endless_env (js ''token'') (js ''kf'') None [] = None)"
proof -
  have one: "syncAllFuel 1 two_message_env (js ''token'') (js ''kf'') None [] =
     Some (Inr [older_message, hello_message])"
    by (simp add: two_message_env_def)
  then have two: "syncAllMessages two_message_env (js ''token'') (js ''kf'') =
     Some (Inr [older_message, hello_message])"
    using syncAllMessages_unbounded [of two_message_env "js ''token''" "js ''kf''"
        "Inr [older_message, hello_message]"]
    by blast
  have never: "syncAllMessages endless_env (js ''token'') (js ''kf'') = None"
    using syncAllMessages_unbounded [of endless_env "js ''token''" "js ''kf''"] endless_env_pages
    by blast
  have "syncAllFuel n endless_env (js ''token'') (js ''kf'') None [] = None" for n
  proof (cases "syncAllFuel n endless_env (js ''token'') (js ''kf'') None []")
    case None
    then show ?thesis .
  next
    case (Some r)
    then have "syncAllMessages endless_env (js ''token'') (js ''kf'') = Some r"
      using syncAllMessages_unbounded [of endless_env "js ''token''" "js ''kf''" r] by blast
    with never show ?thesis by simp
  qed
  with one two endless_env_pages show ?thesis by blast
qed

lemma endless_fuel: "syncAllFuel n endless_env t k c acc = None"
  by (induction n arbitrary: c acc) (simp_all add: endless_env_def js_def)

text \<open>
  Claim C10 as stated fails: against a remote that answers every fetch with one message
  and a further cursor, \<open>syncAllMessages\<close> never returns; nothing bounds the number of
  fetches.
\<close>

theorem syncAllMessages_endless_counterexample:
  "syncAllMessages endless_env (js ''token'') (js ''kf'') = None"
proof (cases "syncAllMessages endless_env (js ''token'') (js ''kf'')")
  case None
  then show ?thesis .
next
  case (Some r)
  then obtain n where "syncAllFuel n endless_env (js ''token'') (js ''kf'') None [] = Some r"
    unfolding syncAllMessages_def using syncAllLoop_fuel by blast
  then show ?thesis by (simp add: endless_fuel)
qed

lemma examineMessage_eq:
  "examineMessage (Some mt) ev w m = (if unprocessedText mt ev w m then [emitted m] else [])"
  by (auto simp: examineMessage_def unprocessedText_def emitted_def Let_def split: option.splits)

lemma sortBySendTimeDesc_descending:
  "sorted_wrt (\<lambda>a b. send_time_or_0 a \<ge> send_time_or_0 b) (sortBySendTimeDesc ms)"
proof -
  have "sorted (map (\<lambda>m. - int (send_time_or_0 m)) (sortBySendTimeDesc ms))"
    unfolding sortBySendTimeDesc_def by (rule sorted_sort_key)
  then show ?thesis by (simp add: sorted_map)
qed

lemma sortBySendTimeDesc_newest:
  assumes "m2 \<in> set ms"
    and "\<forall>m \<in> set ms. m \<noteq> m2 \<longrightarrow> send_time_or_0 m < send_time_or_0 m2"
  shows "\<exists>older. sortBySendTimeDesc ms = m2 # older"
proof (cases "sortBySendTimeDesc ms")
  case Nil
  then have "set (sortBySendTimeDesc ms) = {}" by simp
  with assms(1) show ?thesis by (simp add: sortBySendTimeDesc_def)
next
  case (Cons x older)
  have sets: "set (sortBySendTimeDesc ms) = set ms" by (simp add: sortBySendTimeDesc_def)
  then have xin: "x \<in> set ms" and m2in: "m2 \<in> set (x # older)" using Cons assms(1) by auto
  have "send_time_or_0 m2 \<le> send_time_or_0 x"
    using sortBySendTimeDesc_descending [of ms] m2in unfolding Cons by auto
  with assms(2) xin have "x = m2" by force
  with Cons show ?thesis by simp
qed

text \<open>
  Claim C9, as the code has it.  The synced batch is sorted descending by send time (a
  stable sort, so a permutation of the batch); the scan looks at the first message of the
  sorted batch only, whatever its type; the result is that message if it is a text message
  with content and id that the Ledger reports unprocessed, and empty otherwise, also when
  older messages of the batch are such text messages.  So an unprocessed text message is
  emitted, as the sole result, when it is strictly the newest message of the whole batch.
\<close>

theorem getLatestTextMessages_newest_only:
  assumes "syncAllMessages ev msgToken kfId = Some (Inr batch)"
  shows "sorted_wrt (\<lambda>a b. send_time_or_0 a \<ge> send_time_or_0 b) (sortBySendTimeDesc batch) \<and>
         mset (sortBySendTimeDesc batch) = mset batch \<and>
         getLatestTextMessages ev w msgToken kfId (Some mt) =
           Some (Inr (case sortBySendTimeDesc batch of
                        [] \<Rightarrow> []
                      | newest # older \<Rightarrow>
                          if unprocessedText mt ev w newest then [emitted newest] else [])) \<and>
         (\<forall>m2 \<in> set batch.
            (\<forall>m \<in> set batch. m \<noteq> m2 \<longrightarrow> send_time_or_0 m < send_time_or_0 m2) \<and>
            unprocessedText mt ev w m2 \<longrightarrow>
            getLatestTextMessages ev w msgToken kfId (Some mt) = Some (Inr [emitted m2]))"
proof -
  have run: "getLatestTextMessages ev w msgToken kfId (Some mt) =
           Some (Inr (case sortBySendTimeDesc batch of
                        [] \<Rightarrow> []
                      | newest # older \<Rightarrow>
                          if unprocessedText mt ev w newest then [emitted newest] else []))"
    using assms
    by (simp add: getLatestTextMessages_def scanSorted_def examineMessage_eq split: list.splits)
  have newest: "getLatestTextMessages ev w msgToken kfId (Some mt) = Some (Inr [emitted m2])"
    if "m2 \<in> set batch"
      and "\<forall>m \<in> set batch. m \<noteq> m2 \<longrightarrow> send_time_or_0 m < send_time_or_0 m2"
      and "unprocessedText mt ev w m2" for m2
  proof -
    from sortBySendTimeDesc_newest [OF that(1,2)]
    obtain older where "sortBySendTimeDesc batch = m2 # older" ..
    with run that(3) show ?thesis by simp
  qed
  have "mset (sortBySendTimeDesc batch) = mset batch"
    by (simp add: sortBySendTimeDesc_def)
  with run newest sortBySendTimeDesc_descending [of batch] show ?thesis by blast
qed

text \<open>An instance, the two-message scenario: both messages are unprocessed text messages, and
  the one sent later is the sole result.\<close>

theorem getLatestTextMessages_newest_only_witness:
  "syncAllMessages two_message_env (js ''token'') (js ''kf'') = Some (Inr [older_message, hello_message]) \<and>
   hello_message \<in> set [older_message, hello_message] \<and>
   send_time_or_0 older_message < send_time_or_0 hello_message \<and>
   unprocessedText (new_MessageTracker 0 []) two_message_env empty_world older_message \<and>
   unprocessedText (new_MessageTracker 0 []) two_message_env empty_world hello_message \<and>
   getLatestTextMessages two_message_env empty_world (js ''token'') (js ''kf'')
       (Some (new_MessageTracker 0 [])) = Some (Inr [emitted hello_message])"
proof -
  have sync: "syncAllMessages two_message_env (js ''token'') (js ''kf'') =
      Some (Inr [older_message, hello_message])"
    by (rule syncAll_two_message_env)
  have t: "send_time_or_0 older_message < send_time_or_0 hello_message"
    by (simp add: send_time_or_0_def older_message_def hello_message_def)
  have np: "\<not> isMessageProcessed (new_MessageTracker 0 []) two_message_env empty_world i" for i
    by (simp add: isMessageProcessed_def tracker_kv_get_def kv_get_def two_message_env_def
          example_env_def empty_world_def)
  have u1: "unprocessedText (new_MessageTracker 0 []) two_message_env empty_world older_message"
    by (simp add: unprocessedText_def older_message_def js_def np)
  have u2: "unprocessedText (new_MessageTracker 0 []) two_message_env empty_world hello_message"
    by (simp add: unprocessedText_def hello_message_def js_def np)
  have newest: "\<forall>m \<in> set [older_message, hello_message].
      m \<noteq> hello_message \<longrightarrow> send_time_or_0 m < send_time_or_0 hello_message"
    using t by simp
  have mem: "hello_message \<in> set [older_message, hello_message]" by simp
  from getLatestTextMessages_newest_only [OF sync, of empty_world "new_MessageTracker 0 []"]
  have "\<forall>m2 \<in> set [older_message, hello_message].
      (\<forall>m \<in> set [older_message, hello_message].
         m \<noteq> m2 \<longrightarrow> send_time_or_0 m < send_time_or_0 m2) \<and>
      unprocessedText (new_MessageTracker 0 []) two_message_env empty_world m2 \<longrightarrow>
      getLatestTextMessages two_message_env empty_world (js ''token'') (js ''kf'')
        (Some (new_MessageTracker 0 [])) = Some (Inr [emitted m2])"
    by blast
  with mem newest u2
  have "getLatestTextMessages two_message_env empty_world (js ''token'') (js ''kf'')
       (Some (new_MessageTracker 0 [])) = Some (Inr [emitted hello_message])"
    by blast
  with sync mem t u1 u2 show ?thesis by blast
qed

lemma syncAll_event_newest_env:
  "syncAllMessages event_newest_env t k = Some (Inr [older_message, hello_message, event_message])"
  unfolding syncAllMessages_def
  by (subst syncAllLoop.simps) (simp add: event_newest_env_def)

text \<open>
  Claim C9 as stated fails.  When an event that is not a text message is the newest of
  the batch, nothing is emitted although the batch holds two unprocessed text messages
  sent at different times; and when the newest text message is already recorded in the
  Ledger, nothing is emitted although an older text message is unprocessed.
\<close>

theorem older_unprocessed_texts_counterexample:
  "syncAllMessages event_newest_env (js ''token'') (js ''kf'') =
     Some (Inr [older_message, hello_message, event_message]) \<and>
   unprocessedText (new_MessageTracker 0 []) event_newest_env empty_world older_message \<and>
   unprocessedText (new_MessageTracker 0 []) event_newest_env empty_world hello_message \<and>
   send_time_or_0 older_message < send_time_or_0 hello_message \<and>
   getLatestTextMessages event_newest_env empty_world (js ''token'') (js ''kf'')
       (Some (new_MessageTracker 0 [])) = Some (Inr []) \<and>
   syncAllMessages two_message_env (js ''token'') (js ''kf'') =
     Some (Inr [older_message, hello_message]) \<and>
   unprocessedText (new_MessageTracker 0 []) two_message_env after_repeated_call older_message \<and>
   getLatestTextMessages two_message_env after_repeated_call (js ''token'') (js ''kf'')
       (Some (new_MessageTracker 0 [])) = Some (Inr [])"
proof -
  have np: "\<not> isMessageProcessed (new_MessageTracker 0 []) event_newest_env empty_world i" for i
    by (simp add: isMessageProcessed_def tracker_kv_get_def kv_get_def event_newest_env_def
          example_env_def empty_world_def)
  have u1: "unprocessedText (new_MessageTracker 0 []) event_newest_env empty_world older_message"
    by (simp add: unprocessedText_def older_message_def js_def np)
  have u2: "unprocessedText (new_MessageTracker 0 []) event_newest_env empty_world hello_message"
    by (simp add: unprocessedText_def hello_message_def js_def np)
  have t: "send_time_or_0 older_message < send_time_or_0 hello_message"
    by (simp add: send_time_or_0_def older_message_def hello_message_def)
  have run: "getLatestTextMessages event_newest_env empty_world (js ''token'') (js ''kf'')
       (Some (new_MessageTracker 0 [])) = Some (Inr [])"
    by (simp add: getLatestTextMessages_def syncAll_event_newest_env scanSorted_def
          sortBySendTimeDesc_def send_time_or_0_def examineMessage_def older_message_def
          hello_message_def event_message_def js_def)
  have u3: "unprocessedText (new_MessageTracker 0 []) two_message_env after_repeated_call older_message"
    by (simp add: unprocessedText_def older_message_def isMessageProcessed_def tracker_kv_get_def
          kv_get_def two_message_env_def example_env_def after_repeated_call_def
          new_MessageTracker_def getMessageKey_def js_def)
  have run2: "getLatestTextMessages two_message_env after_repeated_call (js ''token'') (js ''kf'')
       (Some (new_MessageTracker 0 [])) = Some (Inr [])"
    apply (simp add: getLatestTextMessages_def syncAll_two_message_env)
    apply (simp add: scanSorted_def sortBySendTimeDesc_def send_time_or_0_def examineMessage_def
        older_message_def hello_message_def isMessageProcessed_def tracker_kv_get_def
        kv_get_def two_message_env_def example_env_def after_repeated_call_def
        new_MessageTracker_def getMessageKey_def js_def)
    done
  from syncAll_event_newest_env u1 u2 t run syncAll_two_message_env u3 run2
  show ?thesis by simp
qed

section \<open>The Ledger\<close>

lemma fold_results:
  "fold (\<lambda>(msgId, processed) results. results(msgId \<mapsto> processed))
        (map (\<lambda>msgId. (msgId, f msgId)) ids) acc =
   (\<lambda>k. if k \<in> set ids then Some (f k) else acc k)"
  by (induction ids arbitrary: acc) (auto simp: fun_eq_iff)

lemma checkMultipleMessages_eq:
  "checkMultipleMessages mt ev w ids =
     (\<lambda>k. if k \<in> set ids then Some (isMessageProcessed mt ev w k) else None)"
  by (simp add: checkMultipleMessages_def fold_results)

text \<open>
  Claim C6.  A failing read makes \<open>isMessageProcessed\<close> answer false; the batch check
  always returns an answer for every id asked, the answer of \<open>isMessageProcessed\<close>, so
  false for an id whose read fails; a failing write makes \<open>markMessageAsProcessed\<close> throw
  the error of the store, leaving the state as it was.
\<close>

theorem ledger_fail_open_fail_loud:
  "(tracker_kv_get ev w (getMessageKey mt msgId) = Inl e \<longrightarrow>
      isMessageProcessed mt ev w msgId = False) \<and>
   dom (checkMultipleMessages mt ev w msgIds) = set msgIds \<and>
   (\<forall>i \<in> set msgIds.
      checkMultipleMessages mt ev w msgIds i = Some (isMessageProcessed mt ev w i) \<and>
      (tracker_kv_get ev w (getMessageKey mt i) = Inl e \<longrightarrow>
         checkMultipleMessages mt ev w msgIds i = Some False)) \<and>
   (tracker_kv_put ev (getMessageKey mt msgId)
        \<lparr>pr_msgId = msgId, pr_processedAt = now ev, pr_metadata = meta\<rparr>
        (mt_expirationTtl mt) w = Inl e' \<longrightarrow>
      markMessageAsProcessed mt ev msgId meta w = (Inl e', w))"
  by (auto simp: checkMultipleMessages_eq isMessageProcessed_def markMessageAsProcessed_def
           split: if_splits)

text \<open>An instance: a Ledger whose every read and write fails.\<close>

theorem ledger_fail_open_fail_loud_witness:
  "tracker_kv_get failing_tracker_env empty_world (getMessageKey (new_MessageTracker 0 []) (js ''m1'')) =
     Inl (Error (js ''KV GET failed'')) \<and>
   isMessageProcessed (new_MessageTracker 0 []) failing_tracker_env empty_world (js ''m1'') = False \<and>
   js ''m1'' \<in> set [js ''m1'', js ''m2''] \<and>
   checkMultipleMessages (new_MessageTracker 0 []) failing_tracker_env empty_world [js ''m1'', js ''m2'']
     (js ''m1'') = Some False \<and>
   tracker_kv_put failing_tracker_env (getMessageKey (new_MessageTracker 0 []) (js ''m1''))
        \<lparr>pr_msgId = js ''m1'', pr_processedAt = now failing_tracker_env, pr_metadata = emptyMetadata\<rparr>
        (mt_expirationTtl (new_MessageTracker 0 [])) empty_world = Inl (Error (js ''KV PUT failed'')) \<and>
   markMessageAsProcessed (new_MessageTracker 0 []) failing_tracker_env (js ''m1'') emptyMetadata
       empty_world = (Inl (Error (js ''KV PUT failed'')), empty_world)"
proof -
  have get: "tracker_kv_get failing_tracker_env empty_world
      (getMessageKey (new_MessageTracker 0 []) (js ''m1'')) = Inl (Error (js ''KV GET failed''))"
    by (simp add: tracker_kv_get_def kv_get_def failing_tracker_env_def example_env_def)
  have put: "tracker_kv_put failing_tracker_env (getMessageKey (new_MessageTracker 0 []) (js ''m1''))
        \<lparr>pr_msgId = js ''m1'', pr_processedAt = now failing_tracker_env, pr_metadata = emptyMetadata\<rparr>
        (mt_expirationTtl (new_MessageTracker 0 [])) empty_world = Inl (Error (js ''KV PUT failed''))"
    by (simp add: tracker_kv_put_def kv_put_def failing_tracker_env_def example_env_def)
  have mem: "js ''m1'' \<in> set [js ''m1'', js ''m2'']" by simp
  from ledger_fail_open_fail_loud [of failing_tracker_env empty_world "new_MessageTracker 0 []"
      "js ''m1''" "Error (js ''KV GET failed'')" "[js ''m1'', js ''m2'']" emptyMetadata
      "Error (js ''KV PUT failed'')"]
  show ?thesis using get put mem by blast
qed

section \<open>The Context Store\<close>

text \<open>
  Claim C7.  \<open>getConversationHistory\<close> always returns a window (the \<open>catch\<close> covers the whole
  body), and its first entry is the system entry with the preamble configured now; a
  failing read and an absent key give the preamble alone, and a stored leading system entry
  is replaced.
\<close>

theorem getConversationHistory_preamble:
  "(\<exists>rest. getConversationHistory cm ev w userId =
      \<lparr>e_role = System, e_content = systemPrompt cm, e_timestamp = None\<rparr> # rest) \<and>
   (conversations_kv_get ev w (getConversationKey userId) = Inl e \<longrightarrow>
      getConversationHistory cm ev w userId =
        [\<lparr>e_role = System, e_content = systemPrompt cm, e_timestamp = None\<rparr>]) \<and>
   (conversations_kv_get ev w (getConversationKey userId) = Inr None \<longrightarrow>
      getConversationHistory cm ev w userId =
        [\<lparr>e_role = System, e_content = systemPrompt cm, e_timestamp = None\<rparr>]) \<and>
   (conversations_kv_get ev w (getConversationKey userId) = Inr (Some (History (stale # stored))) \<and>
    e_role stale = System \<longrightarrow>
      getConversationHistory cm ev w userId =
        \<lparr>e_role = System, e_content = systemPrompt cm, e_timestamp = None\<rparr> # stored)"
  by (auto simp: getConversationHistory_def getConversationHistory_try_def systemEntry_def
           split: sum.splits option.splits history_json.splits)

text \<open>Instances: a failing read, an absent key, and a conversation stored under an old
  preamble, each read by a manager configured with a new preamble.\<close>

theorem getConversationHistory_preamble_witness:
  "conversations_kv_get failing_conversations_env stale_world (getConversationKey (js ''user'')) =
     Inl (Error (js ''KV GET failed'')) \<and>
   getConversationHistory (new_ConversationManager 10 86400 (js ''new prompt''))
       failing_conversations_env stale_world (js ''user'') =
     [\<lparr>e_role = System, e_content = js ''new prompt'', e_timestamp = None\<rparr>] \<and>
   conversations_kv_get example_env empty_world (getConversationKey (js ''user'')) = Inr None \<and>
   getConversationHistory (new_ConversationManager 10 86400 (js ''new prompt''))
       example_env empty_world (js ''user'') =
     [\<lparr>e_role = System, e_content = js ''new prompt'', e_timestamp = None\<rparr>] \<and>
   conversations_kv_get example_env stale_world (getConversationKey (js ''user'')) =
     Inr (Some (History (stale_entry # [question_entry]))) \<and>
   e_role stale_entry = System \<and>
   getConversationHistory (new_ConversationManager 10 86400 (js ''new prompt''))
       example_env stale_world (js ''user'') =
     [\<lparr>e_role = System, e_content = js ''new prompt'', e_timestamp = None\<rparr>, question_entry]"
proof -
  let ?cm = "new_ConversationManager 10 86400 (js ''new prompt'')"
  have p: "systemPrompt ?cm = js ''new prompt''"
    by (simp add: new_ConversationManager_def js_def)
  have f: "conversations_kv_get failing_conversations_env stale_world
      (getConversationKey (js ''user'')) = Inl (Error (js ''KV GET failed''))"
    by (simp add: conversations_kv_get_def kv_get_def failing_conversations_env_def example_env_def)
  have a: "conversations_kv_get example_env empty_world (getConversationKey (js ''user'')) = Inr None"
    by (simp add: conversations_kv_get_def kv_get_def example_env_def empty_world_def)
  have s: "conversations_kv_get example_env stale_world (getConversationKey (js ''user'')) =
      Inr (Some (History (stale_entry # [question_entry])))"
    by (simp add: conversations_kv_get_def kv_get_def example_env_def stale_world_def)
  have r: "e_role stale_entry = System" by (simp add: stale_entry_def)
  from getConversationHistory_preamble [of ?cm failing_conversations_env stale_world "js ''user''"
      "Error (js ''KV GET failed'')"] f p
  have 1: "getConversationHistory ?cm failing_conversations_env stale_world (js ''user'') =
     [\<lparr>e_role = System, e_content = js ''new prompt'', e_timestamp = None\<rparr>]"
    by simp
  from getConversationHistory_preamble [of ?cm example_env empty_world "js ''user''"] a p
  have 2: "getConversationHistory ?cm example_env empty_world (js ''user'') =
     [\<lparr>e_role = System, e_content = js ''new prompt'', e_timestamp = None\<rparr>]"
    by simp
  from getConversationHistory_preamble [of ?cm example_env stale_world "js ''user''" _
      stale_entry "[question_entry]"] s r p
  have 3: "getConversationHistory ?cm example_env stale_world (js ''user'') =
     [\<lparr>e_role = System, e_content = js ''new prompt'', e_timestamp = None\<rparr>, question_entry]"
    by simp
  from f a s r 1 2 3 show ?thesis by simp
qed

lemma lastN_lastN_append: "lastN n (lastN n xs @ ys) = lastN n (xs @ ys)"
  by (cases "length xs \<le> n") (simp_all add: lastN_def add.commute)

lemma lastN_append_long: "n \<le> length ys \<Longrightarrow> lastN n (xs @ ys) = lastN n ys"
  by (simp add: lastN_def)

lemma read_ok:
  "conversations_ok ev \<Longrightarrow>
   getConversationHistory cm ev w userId = systemEntry cm # storedRest (storedHistory w userId)"
  by (cases "storedHistory w userId" rule: storedRest.cases)
     (auto simp: getConversationHistory_def getConversationHistory_try_def conversations_kv_get_def
        kv_get_def conversations_ok_def storedHistory_def)

lemma save_ok:
  assumes "conversations_ok ev" and "0 < maxHistoryLength cm"
  shows "\<exists>w'. saveConversationHistory cm ev userId (systemEntry cm # xs) w =
            (Inr (systemEntry cm # lastN (maxHistoryLength cm) xs), w') \<and>
          storedHistory w' userId = Some (History (systemEntry cm # lastN (maxHistoryLength cm) xs)) \<and>
          outbox w' = outbox w \<and> MESSAGE_TRACKER w' = MESSAGE_TRACKER w"
proof -
  have long: "slice_last (maxHistoryLength cm) (systemEntry cm # xs) = lastN (maxHistoryLength cm) xs"
    if "maxHistoryLength cm < length xs"
    using assms(2) that by (simp add: slice_last_def lastN_def Suc_diff_le)
  have short: "lastN (maxHistoryLength cm) xs = xs" if "\<not> maxHistoryLength cm < length xs"
    using that by (simp add: lastN_def)
  show ?thesis
    using assms(1)
    by (auto simp: saveConversationHistory_def long short Let_def conversations_kv_put_def
          kv_put_def conversations_ok_def storedHistory_def)
qed

lemma applyOp_ok:
  assumes "conversations_ok ev" and "0 < maxHistoryLength cm"
  shows "\<exists>h w'. applyOp cm ev userId op w = (Inr h, w') \<and>
          storedHistory w' userId =
            Some (History (systemEntry cm #
              lastN (maxHistoryLength cm) (storedRest (storedHistory w userId) @ [opEntry ev op]))) \<and>
          outbox w' = outbox w \<and> MESSAGE_TRACKER w' = MESSAGE_TRACKER w"
  using save_ok [OF assms, of userId "storedRest (storedHistory w userId) @ [opEntry ev op]" w]
  by (cases op) (auto simp: addUserMessage_def addAssistantMessage_def read_ok [OF assms(1)])


lemma appendAll_ok:
  assumes "0 < maxHistoryLength cm" and "\<forall>(ev, op) \<in> set ops. conversations_ok ev"
  shows "\<exists>w'. appendAll cm userId ops w = Inr w' \<and>
          outbox w' = outbox w \<and> MESSAGE_TRACKER w' = MESSAGE_TRACKER w \<and>
          (ops \<noteq> [] \<longrightarrow>
             storedHistory w' userId =
               Some (History (systemEntry cm #
                 lastN (maxHistoryLength cm)
                   (storedRest (storedHistory w userId) @ map (\<lambda>(ev, op). opEntry ev op) ops))))"
  using assms(2)
proof (induction ops arbitrary: w)
  case Nil
  then show ?case by simp
next
  case (Cons a ops)
  obtain ev op where a: "a = (ev, op)" by (cases a)
  from Cons.prems a have ok: "conversations_ok ev"
    and oks: "\<forall>(ev, op) \<in> set ops. conversations_ok ev" by auto
  from applyOp_ok [OF ok assms(1), of userId op w] obtain h w1
    where step: "applyOp cm ev userId op w = (Inr h, w1)"
      and st1: "storedHistory w1 userId =
            Some (History (systemEntry cm #
              lastN (maxHistoryLength cm) (storedRest (storedHistory w userId) @ [opEntry ev op])))"
      and fr1: "outbox w1 = outbox w" "MESSAGE_TRACKER w1 = MESSAGE_TRACKER w"
    by blast
  from Cons.IH [OF oks, of w1] obtain w'
    where rest: "appendAll cm userId ops w1 = Inr w'"
      and fr: "outbox w' = outbox w1" "MESSAGE_TRACKER w' = MESSAGE_TRACKER w1"
      and st: "ops \<noteq> [] \<longrightarrow>
             storedHistory w' userId =
               Some (History (systemEntry cm #
                 lastN (maxHistoryLength cm)
                   (storedRest (storedHistory w1 userId) @ map (\<lambda>(ev, op). opEntry ev op) ops)))"
    by blast
  have run: "appendAll cm userId (a # ops) w = Inr w'"
    using step rest a by simp
  have rest1: "storedRest (storedHistory w1 userId) =
      lastN (maxHistoryLength cm) (storedRest (storedHistory w userId) @ [opEntry ev op])"
    by (simp add: st1 systemEntry_def)
  have "storedHistory w' userId =
               Some (History (systemEntry cm #
                 lastN (maxHistoryLength cm)
                   (storedRest (storedHistory w userId) @ map (\<lambda>(ev, op). opEntry ev op) (a # ops))))"
  proof (cases "ops = []")
    case True
    with rest have "w' = w1" by simp
    with st1 True a show ?thesis by simp
  next
    case False
    with st rest1 a show ?thesis
      by (simp add: lastN_lastN_append)
  qed
  with run fr fr1 show ?case by simp
qed

text \<open>
  Claim C5.  For a manager built by the constructor and a store that works, after more
  appends than \<open>maxHistoryLength\<close> (from any stored state) the stored window is the preamble
  followed by exactly the last \<open>maxHistoryLength\<close> appended entries, and reading it back gives
  \<open>1 + maxHistoryLength\<close> entries starting with the system entry.
\<close>

theorem window_cap:
  assumes "cm = new_ConversationManager maxLen ttl prompt"
    and "\<forall>(ev, op) \<in> set ops. conversations_ok ev"
    and "conversations_ok ev'"
    and "maxHistoryLength cm < length ops"
  shows "\<exists>w'. appendAll cm userId ops w = Inr w' \<and>
           storedHistory w' userId =
             Some (History (systemEntry cm #
               slice_last (maxHistoryLength cm) (map (\<lambda>(ev, op). opEntry ev op) ops))) \<and>
           getConversationHistory cm ev' w' userId =
             systemEntry cm # slice_last (maxHistoryLength cm) (map (\<lambda>(ev, op). opEntry ev op) ops) \<and>
           length (getConversationHistory cm ev' w' userId) = 1 + maxHistoryLength cm \<and>
           e_role (hd (getConversationHistory cm ev' w' userId)) = System"
proof -
  let ?es = "map (\<lambda>(ev, op). opEntry ev op) ops"
  have pos: "0 < maxHistoryLength cm"
    by (simp add: assms(1) new_ConversationManager_def)
  have ne: "ops \<noteq> []" using assms(4) by auto
  from appendAll_ok [OF pos assms(2), of userId w] ne obtain w'
    where run: "appendAll cm userId ops w = Inr w'"
      and st: "storedHistory w' userId =
               Some (History (systemEntry cm #
                 lastN (maxHistoryLength cm) (storedRest (storedHistory w userId) @ ?es)))"
    by blast
  have last: "lastN (maxHistoryLength cm) (storedRest (storedHistory w userId) @ ?es) =
      slice_last (maxHistoryLength cm) ?es"
    using assms(4) pos by (simp add: lastN_append_long) (simp add: lastN_def slice_last_def)
  have st': "storedHistory w' userId =
      Some (History (systemEntry cm # slice_last (maxHistoryLength cm) ?es))"
    using st last by simp
  have read: "getConversationHistory cm ev' w' userId =
      systemEntry cm # slice_last (maxHistoryLength cm) ?es"
    by (simp add: read_ok [OF assms(3)] st' systemEntry_def)
  have len: "length (slice_last (maxHistoryLength cm) ?es) = maxHistoryLength cm"
    using assms(4) pos by (simp add: slice_last_def)
  show ?thesis
    using run st' read len by (simp add: systemEntry_def)
qed

text \<open>An instance: a cap of 2 and three appends onto a conversation stored under an old
  preamble; the window read back is the preamble and the last two appended entries.\<close>

theorem window_cap_witness:
  "conversations_ok example_env \<and>
   maxHistoryLength (new_ConversationManager 2 0 []) <
     length [(example_env, AppendUser (js ''a'')), (example_env, AppendAssistant (js ''b'')),
        (example_env, AppendUser (js ''c''))] \<and>
   (\<exists>w'. appendAll (new_ConversationManager 2 0 []) (js ''user'')
           [(example_env, AppendUser (js ''a'')), (example_env, AppendAssistant (js ''b'')),
            (example_env, AppendUser (js ''c''))] stale_world = Inr w' \<and>
         getConversationHistory (new_ConversationManager 2 0 []) example_env w' (js ''user'') =
           [systemEntry (new_ConversationManager 2 0 []),
            opEntry example_env (AppendAssistant (js ''b'')),
            opEntry example_env (AppendUser (js ''c''))])"
proof -
  let ?cm = "new_ConversationManager 2 0 []"
  let ?ops = "[(example_env, AppendUser (js ''a'')), (example_env, AppendAssistant (js ''b'')),
        (example_env, AppendUser (js ''c''))]"
  have ok: "conversations_ok example_env"
    by (simp add: conversations_ok_def example_env_def)
  then have oks: "\<forall>(ev, op) \<in> set ?ops. conversations_ok ev" by simp
  have len: "maxHistoryLength ?cm < length ?ops"
    by (simp add: new_ConversationManager_def)
  from window_cap [OF refl oks ok len, of "js ''user''" stale_world]
  obtain w' where "appendAll ?cm (js ''user'') ?ops stale_world = Inr w'"
    and "getConversationHistory ?cm example_env w' (js ''user'') =
      systemEntry ?cm # slice_last (maxHistoryLength ?cm) (map (\<lambda>(ev, op). opEntry ev op) ?ops)"
    by blast
  then have "\<exists>w'. appendAll ?cm (js ''user'') ?ops stale_world = Inr w' \<and>
         getConversationHistory ?cm example_env w' (js ''user'') =
           [systemEntry ?cm, opEntry example_env (AppendAssistant (js ''b'')),
            opEntry example_env (AppendUser (js ''c''))]"
    by (simp add: slice_last_def new_ConversationManager_def)
  with ok len show ?thesis by blast
qed

section \<open>The Callback Orchestrator\<close>

lemma mark_cases:
  "markMessageAsProcessed mt ev msgid meta w = (r, w') \<Longrightarrow>
   outbox w' = outbox w \<and> CONVERSATIONS w' = CONVERSATIONS w \<and>
   (\<forall>key. MESSAGE_TRACKER w key \<noteq> None \<longrightarrow> MESSAGE_TRACKER w' key \<noteq> None) \<and>
   (case r of Inl e \<Rightarrow> w' = w | Inr b \<Rightarrow> MESSAGE_TRACKER w' (getMessageKey mt msgid) \<noteq> None)"
  by (auto simp: markMessageAsProcessed_def tracker_kv_put_def kv_put_def Let_def
           split: if_splits option.splits sum.splits)

lemma mark_recorded:
  "markMessageAsProcessed mt ev msgid meta w = (Inr b, w') \<Longrightarrow>
   MESSAGE_TRACKER w' (getMessageKey mt msgid) \<noteq> None"
  by (drule mark_cases) simp

lemma isMessageProcessed_recorded:
  "isMessageProcessed mt ev w msgid \<Longrightarrow> MESSAGE_TRACKER w (getMessageKey mt msgid) \<noteq> None"
  by (auto simp: isMessageProcessed_def tracker_kv_get_def kv_get_def
           split: if_splits option.splits sum.splits)

lemma recorded_isMessageProcessed:
  "MESSAGE_TRACKER_bound ev \<Longrightarrow> tracker_get_error ev (getMessageKey mt msgid) = None \<Longrightarrow>
   MESSAGE_TRACKER w (getMessageKey mt msgid) \<noteq> None \<Longrightarrow> isMessageProcessed mt ev w msgid"
  by (auto simp: isMessageProcessed_def tracker_kv_get_def kv_get_def)

lemma replyAttempt_recorded:
  "replyAttempt ev mt externalUserid content msgid msgKfId w = Some (Inr u, w') \<Longrightarrow>
   MESSAGE_TRACKER w' (getMessageKey mt msgid) \<noteq> None"
  unfolding replyAttempt_def Let_def
  by (auto split: prod.splits sum.splits option.splits if_splits dest: mark_recorded)

lemma processUserMessage_recorded:
  assumes "processUserMessage ev externalUserid content msgid msgKfId w = Some (Inr u, w')"
  shows "MESSAGE_TRACKER w' (getMessageKey (new_MessageTracker 0 []) msgid) \<noteq> None"
  using assms unfolding processUserMessage_def Let_def
  by (auto split: prod.splits sum.splits option.splits if_splits
           dest: mark_recorded replyAttempt_recorded isMessageProcessed_recorded)

lemma mark_ok:
  assumes "MESSAGE_TRACKER_bound ev" and "tracker_put_error ev (getMessageKey mt msgid) = None"
  shows "\<exists>w'. markMessageAsProcessed mt ev msgid meta w = (Inr True, w') \<and>
           outbox w' = outbox w \<and> MESSAGE_TRACKER w' (getMessageKey mt msgid) \<noteq> None"
  using assms
  by (simp add: markMessageAsProcessed_def tracker_kv_put_def kv_put_def Let_def)

lemma replyAttempt_ok:
  assumes c: "conversations_ok ev" and g: "gateway_ok ev"
    and b: "MESSAGE_TRACKER_bound ev"
    and p: "tracker_put_error ev (getMessageKey mt msgid) = None"
    and ai: "\<forall>ms. chatCompletion ev ms = Inr (Some a)" and ne: "a \<noteq> []"
  shows "\<exists>w'. replyAttempt ev mt u content msgid k w = Some (Inr (), w') \<and>
           outbox w' = outbox w @
             (if length a \<le> messageChunkSize then [TextMessage u k a]
              else concat (map (chunkEvents ev u k msgid content a (chunks messageChunkSize (trim a)))
                     [0..<length (chunks messageChunkSize (trim a))])) \<and>
           MESSAGE_TRACKER w' (getMessageKey mt msgid) \<noteq> None"
proof -
  let ?cm = "new_ConversationManager 10 86400 (SYSTEM_PROMPT ev)"
  let ?meta = "emptyMetadata\<lparr>md_externalUserid := Some u, md_content := Some content,
                 md_assistantMessage := Some a, md_success := True\<rparr>"
  have pos: "0 < maxHistoryLength ?cm" by (simp add: new_ConversationManager_def)
  from applyOp_ok [OF c pos, of u "AppendUser content" w]
  obtain h wa where add: "addUserMessage ?cm ev u content w = (Inr h, wa)"
    and oa: "outbox wa = outbox w"
    by auto
  from applyOp_ok [OF c pos, of u "AppendAssistant a" wa]
  obtain h2 wb where add2: "addAssistantMessage ?cm ev u a wa = (Inr h2, wb)"
    and ob: "outbox wb = outbox wa"
    by auto
  let ?wc = "wb\<lparr>outbox := outbox wb @
       (if length a \<le> messageChunkSize then [TextMessage u k a]
        else concat (map (chunkEvents ev u k msgid content a (chunks messageChunkSize (trim a)))
               [0..<length (chunks messageChunkSize (trim a))]))\<rparr>"
  have disp: "dispatchReply ev u k msgid content a wb = Some (Inr (), ?wc)"
    by (rule dispatchReply_ok [OF g])
  from mark_ok [OF b p, of ?meta ?wc]
  obtain wd where mark: "markMessageAsProcessed mt ev msgid ?meta ?wc = (Inr True, wd)"
    and od: "outbox wd = outbox ?wc"
    and rec: "MESSAGE_TRACKER wd (getMessageKey mt msgid) \<noteq> None"
    by blast
  have "replyAttempt ev mt u content msgid k w = Some (Inr (), wd)"
    unfolding replyAttempt_def Let_def cm_processUserMessage_def completeAssistantReply_def
    by (simp add: add ai ne add2 disp mark)
  with od oa ob rec show ?thesis by simp
qed

lemma replyAttempt_no_reply:
  assumes c: "conversations_ok ev"
    and ai: "\<forall>ms a. chatCompletion ev ms = Inr (Some a) \<longrightarrow> a = []"
  shows "\<exists>e w'. replyAttempt ev mt u content msgid k w = Some (Inl e, w') \<and> outbox w' = outbox w"
proof -
  let ?cm = "new_ConversationManager 10 86400 (SYSTEM_PROMPT ev)"
  have pos: "0 < maxHistoryLength ?cm" by (simp add: new_ConversationManager_def)
  from applyOp_ok [OF c pos, of u "AppendUser content" w]
  obtain h wa where add: "addUserMessage ?cm ev u content w = (Inr h, wa)"
    and oa: "outbox wa = outbox w"
    by auto
  show ?thesis
    unfolding replyAttempt_def Let_def cm_processUserMessage_def
    using ai oa
    by (auto simp: add split: sum.splits option.splits)
qed

text \<open>
  Claim C2, as the code has it.  A run of \<open>processUserMessage\<close> for message \<open>msgid\<close> that
  has returned leaves a Ledger record for \<open>msgid\<close> (found there or written by the run), and
  a second run for the same id on that state, with both namespaces bound and the Ledger
  read succeeding, finds it and returns at once: the state is the same, so nothing is sent
  and the conversation window is not touched.  What goes out over the two runs is therefore
  what the first run sent, and that need not be one message.  With the Context Store, the
  Ledger write and the gateway working and the message not yet recorded, a non-empty reply
  of at most \<open>messageChunkSize\<close> code units goes out as one text; a longer reply goes out
  as the events of the dispatch loop over the chunks of the trimmed reply (texts and files,
  and nothing at all when there is no chunk); and when the completion gives no reply, the
  apology goes out as one text.
\<close>

theorem two_runs_outbound:
  assumes "CONVERSATIONS_bound ev2" and "MESSAGE_TRACKER_bound ev2"
    and "tracker_get_error ev2 (getMessageKey (new_MessageTracker 0 []) msgid) = None"
  shows "(processUserMessage ev1 externalUserid content msgid msgKfId w0 = Some (Inr (), w1) \<longrightarrow>
            MESSAGE_TRACKER w1 (getMessageKey (new_MessageTracker 0 []) msgid) \<noteq> None \<and>
            processUserMessage ev2 externalUserid' content' msgid msgKfId' w1 = Some (Inr (), w1)) \<and>
         (conversations_ok ev1 \<and> gateway_ok ev1 \<and> MESSAGE_TRACKER_bound ev1 \<and>
          tracker_put_error ev1 (getMessageKey (new_MessageTracker 0 []) msgid) = None \<and>
          \<not> isMessageProcessed (new_MessageTracker 0 []) ev1 w0 msgid \<longrightarrow>
            ((\<forall>ms. chatCompletion ev1 ms = Inr (Some assistantMessage)) \<and> assistantMessage \<noteq> [] \<longrightarrow>
               (\<exists>messageChunks w.
                  splitStringByLength (trim assistantMessage) messageChunkSize = Some messageChunks \<and>
                  processUserMessage ev1 externalUserid content msgid msgKfId w0 = Some (Inr (), w) \<and>
                  outbox w = outbox w0 @
                    (if length assistantMessage \<le> messageChunkSize
                     then [TextMessage externalUserid msgKfId assistantMessage]
                     else concat (map (chunkEvents ev1 externalUserid msgKfId msgid content
                                         assistantMessage messageChunks)
                                   [0..<length messageChunks])) \<and>
                  processUserMessage ev2 externalUserid' content' msgid msgKfId' w = Some (Inr (), w))) \<and>
            ((\<forall>ms a. chatCompletion ev1 ms = Inr (Some a) \<longrightarrow> a = []) \<longrightarrow>
               (\<exists>w. processUserMessage ev1 externalUserid content msgid msgKfId w0 = Some (Inr (), w) \<and>
                    outbox w = outbox w0 @ [TextMessage externalUserid msgKfId errorMessage] \<and>
                    processUserMessage ev2 externalUserid' content' msgid msgKfId' w =
                      Some (Inr (), w))))"
proof -
  let ?mt = "new_MessageTracker 0 []"
  have second: "MESSAGE_TRACKER w (getMessageKey ?mt msgid) \<noteq> None \<and>
      processUserMessage ev2 externalUserid' content' msgid msgKfId' w = Some (Inr (), w)"
    if "processUserMessage ev1 externalUserid content msgid msgKfId w0 = Some (Inr (), w)" for w
  proof -
    have rec: "MESSAGE_TRACKER w (getMessageKey ?mt msgid) \<noteq> None"
      using that by (rule processUserMessage_recorded)
    then have "isMessageProcessed ?mt ev2 w msgid"
      using assms(2,3) by (intro recorded_isMessageProcessed)
    then have "processUserMessage ev2 externalUserid' content' msgid msgKfId' w = Some (Inr (), w)"
      using assms(1,2) by (simp add: processUserMessage_def)
    with rec show ?thesis ..
  qed
  have reply: "\<exists>messageChunks w.
      splitStringByLength (trim assistantMessage) messageChunkSize = Some messageChunks \<and>
      processUserMessage ev1 externalUserid content msgid msgKfId w0 = Some (Inr (), w) \<and>
      outbox w = outbox w0 @
        (if length assistantMessage \<le> messageChunkSize
         then [TextMessage externalUserid msgKfId assistantMessage]
         else concat (map (chunkEvents ev1 externalUserid msgKfId msgid content
                             assistantMessage messageChunks)
                       [0..<length messageChunks])) \<and>
      processUserMessage ev2 externalUserid' content' msgid msgKfId' w = Some (Inr (), w)"
    if c: "conversations_ok ev1" and g: "gateway_ok ev1" and b: "MESSAGE_TRACKER_bound ev1"
      and p: "tracker_put_error ev1 (getMessageKey ?mt msgid) = None"
      and n: "\<not> isMessageProcessed ?mt ev1 w0 msgid"
      and ai: "\<forall>ms. chatCompletion ev1 ms = Inr (Some assistantMessage)"
      and ne: "assistantMessage \<noteq> []"
  proof -
    from replyAttempt_ok [OF c g b p ai ne, of externalUserid content msgKfId w0]
    obtain w where att: "replyAttempt ev1 ?mt externalUserid content msgid msgKfId w0 = Some (Inr (), w)"
      and out: "outbox w = outbox w0 @
         (if length assistantMessage \<le> messageChunkSize
          then [TextMessage externalUserid msgKfId assistantMessage]
          else concat (map (chunkEvents ev1 externalUserid msgKfId msgid content assistantMessage
                              (chunks messageChunkSize (trim assistantMessage)))
                 [0..<length (chunks messageChunkSize (trim assistantMessage))]))"
      by blast
    have run: "processUserMessage ev1 externalUserid content msgid msgKfId w0 = Some (Inr (), w)"
      using c b n att by (simp add: processUserMessage_def conversations_ok_def)
    from second [OF run] split_chunks [of "trim assistantMessage"] run out
    show ?thesis by blast
  qed
  have apology: "\<exists>w. processUserMessage ev1 externalUserid content msgid msgKfId w0 = Some (Inr (), w) \<and>
      outbox w = outbox w0 @ [TextMessage externalUserid msgKfId errorMessage] \<and>
      processUserMessage ev2 externalUserid' content' msgid msgKfId' w = Some (Inr (), w)"
    if c: "conversations_ok ev1" and g: "gateway_ok ev1" and b: "MESSAGE_TRACKER_bound ev1"
      and p: "tracker_put_error ev1 (getMessageKey ?mt msgid) = None"
      and n: "\<not> isMessageProcessed ?mt ev1 w0 msgid"
      and ai: "\<forall>ms a. chatCompletion ev1 ms = Inr (Some a) \<longrightarrow> a = []"
  proof -
    from replyAttempt_no_reply [OF c ai, of ?mt externalUserid content msgid msgKfId w0]
    obtain e wa where att: "replyAttempt ev1 ?mt externalUserid content msgid msgKfId w0 = Some (Inl e, wa)"
      and oa: "outbox wa = outbox w0"
      by blast
    let ?wb = "wa\<lparr>outbox := outbox wa @ [TextMessage externalUserid msgKfId errorMessage]\<rparr>"
    let ?meta = "emptyMetadata\<lparr>md_externalUserid := Some externalUserid,
                   md_content := Some content, md_error := Some (error_message e),
                   md_success := False\<rparr>"
    from mark_ok [OF b p, of ?meta ?wb]
    obtain wc where mark: "markMessageAsProcessed ?mt ev1 msgid ?meta ?wb = (Inr True, wc)"
      and oc: "outbox wc = outbox ?wb"
      by blast
    have run: "processUserMessage ev1 externalUserid content msgid msgKfId w0 = Some (Inr (), wc)"
      using c b n by (simp add: processUserMessage_def conversations_ok_def att
            sendTextMessage_ok [OF g] mark)
    from second [OF run] run oc oa show ?thesis by simp
  qed
  from second reply apology show ?thesis by blast
qed

lemmas run_defs =
  processUserMessage_def replyAttempt_def cm_processUserMessage_def completeAssistantReply_def
  addUserMessage_def addAssistantMessage_def saveConversationHistory_def
  getConversationHistory_def getConversationHistory_try_def conversations_kv_get_def
  conversations_kv_put_def tracker_kv_get_def tracker_kv_put_def kv_get_def kv_put_def
  isMessageProcessed_def markMessageAsProcessed_def dispatchReply_def sendTextMessage_def
  new_ConversationManager_def new_MessageTracker_def messageChunkSize_def Let_def

text \<open>An instance: a reply of 2000 code units goes out as one text and one file, a failing
  completion gives the apology, and the second run sends nothing in either case.\<close>

theorem two_runs_outbound_witness:
  "CONVERSATIONS_bound example_env \<and> MESSAGE_TRACKER_bound example_env \<and>
   tracker_get_error example_env (getMessageKey (new_MessageTracker 0 []) (js ''m1'')) = None \<and>
   conversations_ok long_reply_env \<and> gateway_ok long_reply_env \<and>
   MESSAGE_TRACKER_bound long_reply_env \<and>
   tracker_put_error long_reply_env (getMessageKey (new_MessageTracker 0 []) (js ''m1'')) = None \<and>
   \<not> isMessageProcessed (new_MessageTracker 0 []) long_reply_env empty_world (js ''m1'') \<and>
   (\<forall>ms. chatCompletion long_reply_env ms = Inr (Some (replicate 2000 0x61))) \<and>
   (\<exists>w. processUserMessage long_reply_env (js ''user'') (js ''hi'') (js ''m1'') (js ''kf'')
           empty_world = Some (Inr (), w) \<and>
        outbox w =
          [TextMessage (js ''user'') (js ''kf'') (replicate 1024 0x61),
           MediaUpload (js ''file'') (replicate 2000 0x61)
             (js ''hi'' @ noteInfix @ js ''m1'' @ js ''.txt''),
           FileMessage (js ''user'') (js ''kf'') (js ''media'')] \<and>
        processUserMessage example_env (js ''user'') (js ''hi'') (js ''m1'') (js ''kf'') w =
          Some (Inr (), w)) \<and>
   (\<exists>w. processUserMessage failing_ai_env (js ''user'') (js ''hi'') (js ''m1'') (js ''kf'')
           empty_world = Some (Inr (), w) \<and>
        outbox w = [TextMessage (js ''user'') (js ''kf'') errorMessage] \<and>
        processUserMessage example_env (js ''user'') (js ''hi'') (js ''m1'') (js ''kf'') w =
          Some (Inr (), w))"
proof -
  let ?mt = "new_MessageTracker 0 []"
  have b: "CONVERSATIONS_bound example_env" "MESSAGE_TRACKER_bound example_env"
    by (simp_all add: example_env_def)
  have r: "tracker_get_error example_env (getMessageKey ?mt (js ''m1'')) = None"
    by (simp add: example_env_def)
  have c: "conversations_ok long_reply_env" "conversations_ok failing_ai_env"
    by (simp_all add: conversations_ok_def long_reply_env_def failing_ai_env_def example_env_def)
  have g: "gateway_ok long_reply_env" "gateway_ok failing_ai_env"
    by (simp_all add: gateway_ok_def long_reply_env_def failing_ai_env_def example_env_def)
  have tb: "MESSAGE_TRACKER_bound long_reply_env" "MESSAGE_TRACKER_bound failing_ai_env"
    by (simp_all add: long_reply_env_def failing_ai_env_def example_env_def)
  have p: "tracker_put_error long_reply_env (getMessageKey ?mt (js ''m1'')) = None"
    "tracker_put_error failing_ai_env (getMessageKey ?mt (js ''m1'')) = None"
    by (simp_all add: long_reply_env_def failing_ai_env_def example_env_def)
  have n: "\<not> isMessageProcessed ?mt long_reply_env empty_world (js ''m1'')"
    "\<not> isMessageProcessed ?mt failing_ai_env empty_world (js ''m1'')"
    by (simp_all add: isMessageProcessed_def tracker_kv_get_def kv_get_def long_reply_env_def
          failing_ai_env_def example_env_def empty_world_def)
  have ai: "\<forall>ms. chatCompletion long_reply_env ms = Inr (Some (replicate 2000 0x61))"
    by (simp add: long_reply_env_def example_env_def)
  have ne: "replicate 2000 (0x61::16 word) \<noteq> []" by simp
  have noai: "\<forall>ms a. chatCompletion failing_ai_env ms = Inr (Some a) \<longrightarrow> a = []"
    by (simp add: failing_ai_env_def example_env_def)
  have split: "splitStringByLength (trim (replicate 2000 0x61)) messageChunkSize =
      Some [replicate 1024 0x61, replicate 976 0x61]"
    by (simp add: splitStringByLength_def splitLoop_chunks trim_replicate nws chunks_step
          chunks_Nil messageChunkSize_def)
  have up: "uploadMedia long_reply_env t f nm = Inr (js ''media'')" for t f nm
    by (simp add: long_reply_env_def example_env_def)
  from two_runs_outbound [OF b r, where ?ev1.0 = long_reply_env and externalUserid = "js ''user''"
      and content = "js ''hi''" and msgKfId = "js ''kf''" and ?w0.0 = empty_world
      and assistantMessage = "replicate 2000 0x61" and externalUserid' = "js ''user''"
      and content' = "js ''hi''" and msgKfId' = "js ''kf''"]
    c(1) g(1) tb(1) p(1) n(1) ai ne
  obtain cs w where cs: "splitStringByLength (trim (replicate 2000 0x61)) messageChunkSize = Some cs"
    and run: "processUserMessage long_reply_env (js ''user'') (js ''hi'') (js ''m1'') (js ''kf'')
           empty_world = Some (Inr (), w)"
    and out: "outbox w = outbox empty_world @
        (if length (replicate 2000 (0x61::16 word)) \<le> messageChunkSize
         then [TextMessage (js ''user'') (js ''kf'') (replicate 2000 0x61)]
         else concat (map (chunkEvents long_reply_env (js ''user'') (js ''kf'') (js ''m1'') (js ''hi'')
                             (replicate 2000 0x61) cs) [0..<length cs]))"
    and again: "processUserMessage example_env (js ''user'') (js ''hi'') (js ''m1'') (js ''kf'') w =
          Some (Inr (), w)"
    by blast
  from cs split have "cs = [replicate 1024 0x61, replicate 976 0x61]" by simp
  with out have out': "outbox w =
          [TextMessage (js ''user'') (js ''kf'') (replicate 1024 0x61),
           MediaUpload (js ''file'') (replicate 2000 0x61)
             (js ''hi'' @ noteInfix @ js ''m1'' @ js ''.txt''),
           FileMessage (js ''user'') (js ''kf'') (js ''media'')]"
    by (simp add: messageChunkSize_def chunkEvents_def messageChunkCount_def noteEvents_def up
          empty_world_def)
  from two_runs_outbound [OF b r, where ?ev1.0 = failing_ai_env and externalUserid = "js ''user''"
      and content = "js ''hi''" and msgKfId = "js ''kf''" and ?w0.0 = empty_world
      and externalUserid' = "js ''user''" and content' = "js ''hi''" and msgKfId' = "js ''kf''"]
    c(2) g(2) tb(2) p(2) n(2) noai
  obtain v where "processUserMessage failing_ai_env (js ''user'') (js ''hi'') (js ''m1'') (js ''kf'')
           empty_world = Some (Inr (), v)"
    and "outbox v = outbox empty_world @ [TextMessage (js ''user'') (js ''kf'') errorMessage]"
    and "processUserMessage example_env (js ''user'') (js ''hi'') (js ''m1'') (js ''kf'') v =
          Some (Inr (), v)"
    by blast
  then have fail: "\<exists>w. processUserMessage failing_ai_env (js ''user'') (js ''hi'') (js ''m1'') (js ''kf'')
           empty_world = Some (Inr (), w) \<and>
        outbox w = [TextMessage (js ''user'') (js ''kf'') errorMessage] \<and>
        processUserMessage example_env (js ''user'') (js ''hi'') (js ''m1'') (js ''kf'') w =
          Some (Inr (), w)"
    by (auto simp: empty_world_def)
  from run out' again fail b r c(1) g(1) tb(1) p(1) n(1) ai show ?thesis by blast
qed

lemma blank_reply_run:
  "processUserMessage blank_reply_env (js ''user'') (js ''hi'') (js ''m1'') (js ''kf'') empty_world =
     Some (Inr (), after_blank_reply)"
proof -
  have ws: "isWhiteSpace 0x9" by (simp add: isWhiteSpace_def)
  have split: "splitStringByLength (trim (replicate 1025 0x9)) 1024 = Some []"
    using split_chunks [of "[]"] by (simp add: trim_blank [OF ws] chunks_Nil messageChunkSize_def)
  show ?thesis
    apply (simp add: run_defs blank_reply_env_def example_env_def empty_world_def split
        sendChunks_Nil)
    apply (simp add: after_blank_reply_def js_def fun_eq_iff emptyMetadata_def getMessageKey_def
        getConversationKey_def systemEntry_def)
    done
qed

text \<open>
  Claim C2 as stated fails for a reply of 1025 tab characters.  It is longer than
  \<open>messageChunkSize\<close>, its trimmed form is empty, so there is no chunk and nothing is
  sent; the message is recorded as answered.  The second run is silent as well: the two
  runs together produce no outbound message, not one.
\<close>

theorem blank_reply_counterexample:
  "processUserMessage blank_reply_env (js ''user'') (js ''hi'') (js ''m1'') (js ''kf'') empty_world =
     Some (Inr (), after_blank_reply) \<and>
   processUserMessage blank_reply_env (js ''user'') (js ''hi'') (js ''m1'') (js ''kf'')
       after_blank_reply = Some (Inr (), after_blank_reply) \<and>
   outbox empty_world = [] \<and> outbox after_blank_reply = []"
proof -
  have second: "processUserMessage blank_reply_env (js ''user'') (js ''hi'') (js ''m1'') (js ''kf'')
       after_blank_reply = Some (Inr (), after_blank_reply)"
    by (simp add: processUserMessage_def isMessageProcessed_def tracker_kv_get_def kv_get_def
          new_MessageTracker_def getMessageKey_def blank_reply_env_def example_env_def
          after_blank_reply_def js_def)
  show ?thesis
    using blank_reply_run second by (simp add: empty_world_def after_blank_reply_def)
qed

lemmas callback_defs =
  handleCallbackAsync_def callbackAttempt_def decryptMsg_def getLatestTextMessages_def
  scanSorted_def examineMessage_def sortBySendTimeDesc_def send_time_or_0_def getMessageKey_def
  getConversationKey_def

text \<open>
  Claim C8.  On a signature mismatch (code -40001) and on a decryption error (code -40007)
  \<open>handleCallbackAsync\<close> returns from inside the \<open>try\<close> block: nothing is sent, and
  nothing is written to the Ledger either, so the call-level id is not marked as failed.
  The \<open>catch\<close> block of the same function does write that record for every failure that
  is thrown.
\<close>

theorem auth_failure_leaves_no_record:
  "decryptMsg bad_signature_env example_post (msgSignature example_params)
       (timestamp example_params) (nonce example_params) = (- 40001, []) \<and>
   handleCallbackAsync bad_signature_env example_post example_params empty_world =
     Some (Inr (), empty_world) \<and>
   decryptMsg decrypt_error_env example_post (msgSignature example_params)
       (timestamp example_params) (nonce example_params) = (- 40007, []) \<and>
   handleCallbackAsync decrypt_error_env example_post example_params empty_world =
     Some (Inr (), empty_world) \<and>
   MESSAGE_TRACKER empty_world
       (getMessageKey (new_MessageTracker 0 []) (msgSignature example_params)) = None"
  by (simp add: callback_defs bad_signature_env_def decrypt_error_env_def example_env_def
        example_params_def empty_world_def js_def)

lemma syncAll_fails:
  "syncMessages ev t k None = Inl e \<Longrightarrow> syncAllMessages ev t k = Some (Inl e)"
  unfolding syncAllMessages_def
  by (subst syncAllLoop.simps) simp

lemma syncAll_single_page:
  "syncMessages ev t k None = Inr \<lparr>msg_list = Some ms, next_cursor = None\<rparr> \<Longrightarrow>
   syncAllMessages ev t k = Some (Inr ms)"
  unfolding syncAllMessages_def
  by (subst syncAllLoop.simps) simp

lemma callbackAttempt_synced:
  assumes "WECHAT_configured ev"
    and "decryptMsg ev postData (msgSignature ps) (timestamp ps) (nonce ps) = (0, xml)"
    and "parseXML ev xml = Inr (token, kfId)"
    and "syncAllMessages ev token kfId = Some (Inr batch)"
  shows "callbackAttempt ev mt postData ps w =
     (case (case scanSorted (Some mt) ev w (sortBySendTimeDesc batch) of
              [] \<Rightarrow> Some (Inr (), w)
            | latestMessage # others \<Rightarrow>
                processUserMessage ev (t_externalUserid latestMessage) (t_content latestMessage)
                  (t_msgid latestMessage) kfId w) of
        None \<Rightarrow> None
      | Some (Inl e, w1) \<Rightarrow> Some (Inl e, w1)
      | Some (Inr u, w1) \<Rightarrow>
          (case markMessageAsProcessed mt ev (msgSignature ps)
                  (emptyMetadata\<lparr>md_timestamp := Some (timestamp ps),
                     md_nonce := Some (nonce ps), md_success := True\<rparr>) w1 of
             (Inl e, w2) \<Rightarrow> Some (Inl e, w2)
           | (Inr b, w2) \<Rightarrow> Some (Inr (), w2)))"
  using assms
  by (simp add: callbackAttempt_def getLatestTextMessages_def split: list.splits)

lemma newest_recorded_after_success:
  assumes cfg: "WECHAT_configured ev1"
    and dec: "decryptMsg ev1 postData (msgSignature ps) (timestamp ps) (nonce ps) = (0, xml)"
    and parse: "parseXML ev1 xml = Inr (token, kfId)"
    and sync: "syncAllMessages ev1 token kfId = Some (Inr batch)"
    and run: "callbackAttempt ev1 (new_MessageTracker 0 []) postData ps w0 = Some (Inr (), w1)"
    and srt: "sortBySendTimeDesc batch = newest # older"
    and tx: "m_msgtype newest = js ''text''" "m_text_content newest = Some c" "c \<noteq> []"
      "m_msgid newest = Some i" "i \<noteq> []"
  shows "MESSAGE_TRACKER w1 (getMessageKey (new_MessageTracker 0 []) i) \<noteq> None"
proof -
  let ?mt = "new_MessageTracker 0 []"
  note unfolded = run [unfolded callbackAttempt_synced [OF cfg dec parse sync]]
  show ?thesis
  proof (cases "isMessageProcessed ?mt ev1 w0 i")
    case True
    then have rec0: "MESSAGE_TRACKER w0 (getMessageKey ?mt i) \<noteq> None"
      by (rule isMessageProcessed_recorded)
    from True tx have "scanSorted (Some ?mt) ev1 w0 (sortBySendTimeDesc batch) = []"
      by (simp add: scanSorted_def srt examineMessage_eq unprocessedText_def)
    with unfolded obtain r where "markMessageAsProcessed ?mt ev1 (msgSignature ps)
        (emptyMetadata\<lparr>md_timestamp := Some (timestamp ps), md_nonce := Some (nonce ps),
           md_success := True\<rparr>) w0 = (r, w1)"
      by (auto split: prod.splits sum.splits)
    from mark_cases [OF this] rec0 show ?thesis by blast
  next
    case False
    with tx have "scanSorted (Some ?mt) ev1 w0 (sortBySendTimeDesc batch) = [emitted newest]"
      by (simp add: scanSorted_def srt examineMessage_eq unprocessedText_def)
    with unfolded tx obtain u w' r
      where p: "processUserMessage ev1 (t_externalUserid (emitted newest)) c i kfId w0 =
                  Some (Inr u, w')"
        and m: "markMessageAsProcessed ?mt ev1 (msgSignature ps)
                  (emptyMetadata\<lparr>md_timestamp := Some (timestamp ps),
                     md_nonce := Some (nonce ps), md_success := True\<rparr>) w' = (r, w1)"
      by (auto simp: emitted_def split: option.splits prod.splits sum.splits)
    from processUserMessage_recorded [OF p] mark_cases [OF m] show ?thesis by blast
  qed
qed

text \<open>
  Claim C1, as the code has it.  The call-level record is written at the end of a run but
  never read.  What makes a repeated delivery silent is the message-level record: when
  the \<open>try\<close> block of a first run completed (so the call was recorded as a success), a
  later delivery of the same call that is verified, syncs the same batch and can read the
  Ledger emits no message, sends nothing and leaves the conversation store as it was.
\<close>

theorem repeated_delivery_after_success:
  assumes "WECHAT_configured ev1" and "WECHAT_configured ev2"
    and "decryptMsg ev1 postData (msgSignature ps) (timestamp ps) (nonce ps) = (0, xml1)"
    and "decryptMsg ev2 postData (msgSignature ps) (timestamp ps) (nonce ps) = (0, xml2)"
    and "parseXML ev1 xml1 = Inr (token, kfId)" and "parseXML ev2 xml2 = Inr (token, kfId)"
    and "syncAllMessages ev1 token kfId = Some (Inr batch)"
    and "syncAllMessages ev2 token kfId = Some (Inr batch)"
    and "callbackAttempt ev1 (new_MessageTracker 0 []) postData ps w0 = Some (Inr (), w1)"
    and "MESSAGE_TRACKER_bound ev2" and "\<forall>key. tracker_get_error ev2 key = None"
  shows "handleCallbackAsync ev1 postData ps w0 = Some (Inr (), w1) \<and>
         getLatestTextMessages ev2 w1 token kfId (Some (new_MessageTracker 0 [])) = Some (Inr []) \<and>
         (\<exists>r w2. handleCallbackAsync ev2 postData ps w1 = Some (r, w2) \<and>
                  outbox w2 = outbox w1 \<and> CONVERSATIONS w2 = CONVERSATIONS w1)"
proof -
  let ?mt = "new_MessageTracker 0 []"
  have first: "handleCallbackAsync ev1 postData ps w0 = Some (Inr (), w1)"
    using assms(9) by (simp add: handleCallbackAsync_def)
  have quiet: "scanSorted (Some ?mt) ev2 w1 (sortBySendTimeDesc batch) = []"
  proof (cases "sortBySendTimeDesc batch")
    case Nil
    then show ?thesis by (simp add: scanSorted_def)
  next
    case (Cons newest older)
    have "\<not> unprocessedText ?mt ev2 w1 newest"
    proof
      assume "unprocessedText ?mt ev2 w1 newest"
      then obtain c i where tx: "m_msgtype newest = js ''text''" "m_text_content newest = Some c"
          "c \<noteq> []" "m_msgid newest = Some i" "i \<noteq> []"
        and unprocessed: "\<not> isMessageProcessed ?mt ev2 w1 i"
        by (auto simp: unprocessedText_def split: option.splits)
      from newest_recorded_after_success [OF assms(1,3,5,7,9) Cons tx]
      have "MESSAGE_TRACKER w1 (getMessageKey ?mt i) \<noteq> None" .
      with assms(10,11) have "isMessageProcessed ?mt ev2 w1 i"
        by (intro recorded_isMessageProcessed) simp_all
      with unprocessed show False ..
    qed
    then show ?thesis by (simp add: scanSorted_def Cons examineMessage_eq)
  qed
  then have emits: "getLatestTextMessages ev2 w1 token kfId (Some ?mt) = Some (Inr [])"
    using assms(8) by (simp add: getLatestTextMessages_def)
  obtain r1 v where m1: "markMessageAsProcessed ?mt ev2 (msgSignature ps)
        (emptyMetadata\<lparr>md_timestamp := Some (timestamp ps), md_nonce := Some (nonce ps),
           md_success := True\<rparr>) w1 = (r1, v)"
    by (cases "markMessageAsProcessed ?mt ev2 (msgSignature ps)
        (emptyMetadata\<lparr>md_timestamp := Some (timestamp ps), md_nonce := Some (nonce ps),
           md_success := True\<rparr>) w1")
  have "callbackAttempt ev2 ?mt postData ps w1 =
      (case markMessageAsProcessed ?mt ev2 (msgSignature ps)
              (emptyMetadata\<lparr>md_timestamp := Some (timestamp ps), md_nonce := Some (nonce ps),
                 md_success := True\<rparr>) w1 of
         (Inl e, w2) \<Rightarrow> Some (Inl e, w2)
       | (Inr b, w2) \<Rightarrow> Some (Inr (), w2))"
    unfolding callbackAttempt_synced [OF assms(2,4,6,8)] quiet by simp
  then have try2: "callbackAttempt ev2 ?mt postData ps w1 =
      (case r1 of Inl e \<Rightarrow> Some (Inl e, v) | Inr b \<Rightarrow> Some (Inr (), v))"
    unfolding m1 by (simp split: sum.splits)
  from mark_cases [OF m1] have v: "outbox v = outbox w1" "CONVERSATIONS v = CONVERSATIONS w1"
    by simp_all
  have "\<exists>r w2. handleCallbackAsync ev2 postData ps w1 = Some (r, w2) \<and>
                  outbox w2 = outbox w1 \<and> CONVERSATIONS w2 = CONVERSATIONS w1"
  proof (cases r1)
    case (Inr b)
    with try2 v show ?thesis by (simp add: handleCallbackAsync_def)
  next
    case (Inl e)
    obtain r2 w2 where m2: "markMessageAsProcessed ?mt ev2 (msgSignature ps)
        (emptyMetadata\<lparr>md_timestamp := Some (timestamp ps), md_nonce := Some (nonce ps),
           md_error := Some (error_message e), md_success := False\<rparr>) v = (r2, w2)"
      by (cases "markMessageAsProcessed ?mt ev2 (msgSignature ps)
        (emptyMetadata\<lparr>md_timestamp := Some (timestamp ps), md_nonce := Some (nonce ps),
           md_error := Some (error_message e), md_success := False\<rparr>) v")
    from mark_cases [OF m2] v have "outbox w2 = outbox w1" "CONVERSATIONS w2 = CONVERSATIONS w1"
      by simp_all
    with Inl try2 m2 show ?thesis
      by (cases r2) (simp_all add: handleCallbackAsync_def)
  qed
  with first emits show ?thesis by blast
qed

text \<open>An instance: the mailbox holds the two messages; the first delivery answers the newer
  one, the second delivery of the same call sends nothing.\<close>

theorem repeated_delivery_after_success_witness:
  "WECHAT_configured two_message_env \<and>
   decryptMsg two_message_env example_post (msgSignature example_params)
       (timestamp example_params) (nonce example_params) = (0, js ''xml'') \<and>
   parseXML two_message_env (js ''xml'') = Inr (js ''token'', js ''kf'') \<and>
   syncAllMessages two_message_env (js ''token'') (js ''kf'') =
     Some (Inr [older_message, hello_message]) \<and>
   MESSAGE_TRACKER_bound two_message_env \<and>
   (\<forall>key. tracker_get_error two_message_env key = None) \<and>
   (\<exists>w1. callbackAttempt two_message_env (new_MessageTracker 0 []) example_post example_params
            empty_world = Some (Inr (), w1) \<and>
         outbox w1 = [TextMessage (js ''user'') (js ''kf'') (js ''hello'')] \<and>
         (\<exists>r w2. handleCallbackAsync two_message_env example_post example_params w1 = Some (r, w2) \<and>
                  outbox w2 = outbox w1 \<and> CONVERSATIONS w2 = CONVERSATIONS w1))"
proof -
  have cfg: "WECHAT_configured two_message_env"
    by (simp add: two_message_env_def example_env_def)
  have dec: "decryptMsg two_message_env example_post (msgSignature example_params)
       (timestamp example_params) (nonce example_params) = (0, js ''xml'')"
    by (simp add: decryptMsg_def two_message_env_def example_env_def example_params_def js_def)
  have parse: "parseXML two_message_env (js ''xml'') = Inr (js ''token'', js ''kf'')"
    by (simp add: two_message_env_def example_env_def)
  have sync: "syncAllMessages two_message_env (js ''token'') (js ''kf'') =
     Some (Inr [older_message, hello_message])"
    by (rule syncAll_two_message_env)
  have bound: "MESSAGE_TRACKER_bound two_message_env"
    by (simp add: two_message_env_def example_env_def)
  have reads: "\<forall>key. tracker_get_error two_message_env key = None"
    by (simp add: two_message_env_def example_env_def)
  have "\<exists>w1. callbackAttempt two_message_env (new_MessageTracker 0 []) example_post example_params
            empty_world = Some (Inr (), w1) \<and>
         outbox w1 = [TextMessage (js ''user'') (js ''kf'') (js ''hello'')]"
    by (simp add: callback_defs run_defs syncAll_single_page two_message_env_def example_env_def
          example_params_def empty_world_def hello_message_def older_message_def
          emptyMetadata_def js_def)
  then obtain w1
    where run1: "callbackAttempt two_message_env (new_MessageTracker 0 []) example_post
        example_params empty_world = Some (Inr (), w1)"
      and out1: "outbox w1 = [TextMessage (js ''user'') (js ''kf'') (js ''hello'')]"
    by blast
  from repeated_delivery_after_success [OF cfg cfg dec dec parse parse sync sync run1 bound reads]
  have "\<exists>r w2. handleCallbackAsync two_message_env example_post example_params w1 = Some (r, w2) \<and>
                  outbox w2 = outbox w1 \<and> CONVERSATIONS w2 = CONVERSATIONS w1"
    by blast
  with cfg dec parse sync bound reads run1 out1 show ?thesis by blast
qed

text \<open>
  Claim C1 as stated fails.  A first delivery whose sync fails ends in the \<open>catch\<close> block,
  which records the call-level id (as failed).  A second delivery with the same call id,
  whose sync now returns the user's messages, is processed like any other: the newest
  message is answered and a reply goes out.
\<close>

theorem repeated_call_counterexample:
  "handleCallbackAsync sync_failing_env example_post example_params empty_world =
     Some (Inr (), after_failed_call) \<and>
   MESSAGE_TRACKER after_failed_call
       (getMessageKey (new_MessageTracker 0 []) (msgSignature example_params)) \<noteq> None \<and>
   outbox after_failed_call = [] \<and>
   handleCallbackAsync two_message_env example_post example_params after_failed_call =
     Some (Inr (), after_repeated_call) \<and>
   outbox after_repeated_call = [TextMessage (js ''user'') (js ''kf'') (js ''hello'')]"
proof -
  have 1: "handleCallbackAsync sync_failing_env example_post example_params empty_world =
     Some (Inr (), after_failed_call)"
    by (simp add: callback_defs run_defs syncAll_fails sync_failing_env_def example_env_def
          example_params_def empty_world_def after_failed_call_def emptyMetadata_def js_def)
  have 2: "MESSAGE_TRACKER after_failed_call
       (getMessageKey (new_MessageTracker 0 []) (msgSignature example_params)) \<noteq> None"
    by (simp add: after_failed_call_def getMessageKey_def new_MessageTracker_def
          example_params_def js_def)
  have 3: "handleCallbackAsync two_message_env example_post example_params after_failed_call =
     Some (Inr (), after_repeated_call)"
    by (simp add: callback_defs run_defs syncAll_single_page two_message_env_def example_env_def
          example_params_def empty_world_def after_failed_call_def hello_message_def
          older_message_def emptyMetadata_def after_repeated_call_def systemEntry_def js_def
          fun_eq_iff)
  have 4: "outbox after_failed_call = []"
    by (simp add: after_failed_call_def empty_world_def)
  have 5: "outbox after_repeated_call = [TextMessage (js ''user'') (js ''kf'') (js ''hello'')]"
    by (simp add: after_repeated_call_def)
  from 1 2 3 4 5 show ?thesis by simp
qed

end
